theory Spec2Isabelle
  imports Complex_Main "HOL-Library.Sublist"
begin

section \<open>JavaScript strings and values\<close>

text \<open>
  Strings are lists of characters. The transcript text is taken to be ASCII, so that a
  character of the model is one code unit of the JavaScript string, \<open>length\<close> is
  \<open>String.prototype.length\<close> and \<open>toLowerCase\<close> only touches the letters A to Z.
  Numbers are modelled as exact reals: the properties below depend on the order of the
  numbers and on the arithmetic of the source, not on the rounding of doubles. Where the
  source can hold \<open>NaN\<close>, in a score, the model holds it too.
\<close>

definition lower_char :: "char \<Rightarrow> char" where
  "lower_char c =
     (let n = (of_char c :: nat) in if 65 \<le> n \<and> n \<le> 90 then char_of (n + 32) else c)"

definition toLowerCase :: "string \<Rightarrow> string" where
  "toLowerCase s = map lower_char s"

fun starts_with :: "string \<Rightarrow> string \<Rightarrow> bool" where
  "starts_with s [] = True"
| "starts_with [] (p # ps) = False"
| "starts_with (c # cs) (p # ps) = (c = p \<and> starts_with cs ps)"

text \<open>\<open>s.includes(sub)\<close>: \<open>sub\<close> occurs in \<open>s\<close> as a contiguous substring.\<close>

fun str_includes :: "string \<Rightarrow> string \<Rightarrow> bool" where
  "str_includes [] sub = (sub = [])"
| "str_includes (c # cs) sub = (starts_with (c # cs) sub \<or> str_includes cs sub)"

text \<open>\<open>strs.join(sep)\<close>.\<close>

fun join :: "string list \<Rightarrow> string \<Rightarrow> string" where
  "join [] sep = []"
| "join [s] sep = s"
| "join (s # t # ts) sep = s @ sep @ join (t # ts) sep"

text \<open>\<open>(text.match(/c/g) || []).length\<close> for a single literal character \<open>c\<close>.\<close>

definition match_count :: "char \<Rightarrow> string \<Rightarrow> nat" where
  "match_count c s = length (filter (\<lambda>d. d = c) s)"

definition is_space :: "char \<Rightarrow> bool" where
  "is_space c = (c \<in> set [CHR '' '', CHR 0x09, CHR 0x0A, CHR 0x0B, CHR 0x0C, CHR 0x0D])"

definition trim :: "string \<Rightarrow> string" where
  "trim s = rev (dropWhile is_space (rev (dropWhile is_space s)))"

definition is_sentence_end :: "char \<Rightarrow> bool" where
  "is_sentence_end c = (c = CHR ''.'' \<or> c = CHR ''!'' \<or> c = CHR ''?'')"

text \<open>
  \<open>text.split(/[.!?]+/)\<close>: the pieces between the maximal runs of sentence punctuation;
  a run at either end of the text leaves an empty piece there, and the empty text splits
  into one empty piece.
\<close>

fun split_sentences :: "string \<Rightarrow> string list" where
  "split_sentences [] = [[]]"
| "split_sentences (c # cs) =
     (if is_sentence_end c then
        (case cs of
           [] \<Rightarrow> [] # split_sentences cs
         | d # ds \<Rightarrow> if is_sentence_end d then split_sentences cs else [] # split_sentences cs)
      else (case split_sentences cs of
              [] \<Rightarrow> [[c]]
            | p # ps \<Rightarrow> (c # p) # ps))"

text \<open>
  A score is a number or \<open>NaN\<close>: the heuristic scores are numbers, and \<open>NaN\<close> is what
  \<open>ranking.viralScore / 10\<close> gives when the reply has no number there. Every comparison
  with \<open>NaN\<close> is false.
\<close>

datatype js_number = Number real | NaN

fun js_divide :: "js_number \<Rightarrow> real \<Rightarrow> js_number" where
  "js_divide (Number x) d = Number (x / d)"
| "js_divide NaN d = NaN"

fun js_ge :: "js_number \<Rightarrow> js_number \<Rightarrow> bool" where
  "js_ge (Number x) (Number y) = (x \<ge> y)"
| "js_ge NaN y = False"
| "js_ge (Number x) NaN = False"

fun is_number :: "js_number \<Rightarrow> bool" where
  "is_number (Number x) = True"
| "is_number NaN = False"

fun number_of :: "js_number \<Rightarrow> real" where
  "number_of (Number x) = x"
| "number_of NaN = 0"

section \<open>Data model\<close>

record transcript_segment =
  seg_text :: string
  seg_start :: real
  seg_end :: real
  confidence :: "real option"

record viral_moment =
  m_id :: string
  m_start :: real
  m_end :: real
  m_score :: js_number
  m_reason :: string
  m_text :: string
  m_emotions :: "string list"
  m_keywords :: "string list"

section \<open>Viral moment detection\<close>

definition VIRAL_KEYWORDS :: "string list" where
  "VIRAL_KEYWORDS =
     [''shocking'', ''crazy'', ''insane'', ''unbelievable'', ''secret'', ''revealed'', ''truth'',
      ''amazing'', ''incredible'', ''must see'', ''warning'', ''exposed'', ''never'', ''always'',
      ''everyone'', ''nobody'', ''mistake'', ''hack'', ''trick'', ''best'', ''worst'', ''first time'',
      ''story'', ''happened'', ''realized'', ''discovered'', ''finally'', ''actually'']"

text \<open>The entries of \<open>EMOTION_KEYWORDS\<close>, in the order of the object literal.\<close>

definition EMOTION_KEYWORDS :: "(string \<times> string list) list" where
  "EMOTION_KEYWORDS =
     [(''excitement'', [''excited'', ''amazing'', ''incredible'', ''wow'', ''awesome'', ''fantastic'']),
      (''surprise'', [''shocking'', ''surprised'', ''unexpected'', ''suddenly'', ''wait'', ''what'']),
      (''urgency'', [''now'', ''must'', ''need'', ''quick'', ''important'', ''immediately'']),
      (''curiosity'', [''why'', ''how'', ''what if'', ''imagine'', ''think about'', ''ever wondered'']),
      (''controversy'', [''wrong'', ''lie'', ''truth'', ''exposed'', ''hidden'', ''secret''])]"

text \<open>
  \<open>calculateViralScore\<close>. The average segment length of an empty segment list is
  \<open>0 / 0 = NaN\<close> in the source, and \<open>NaN < 50\<close> is false: no bonus then.
\<close>

definition calculateViralScore :: "string \<Rightarrow> transcript_segment list \<Rightarrow> real" where
  "calculateViralScore text segments =
     (let lowerText = toLowerCase text;
          keywordMatches = length (filter (\<lambda>kw. str_includes lowerText kw) VIRAL_KEYWORDS);
          score1 = 0 + real keywordMatches * 0.1;
          emotionCount = foldl (\<lambda>count kws.
              count + length (filter (\<lambda>kw. str_includes lowerText kw) kws)) 0
              (map snd EMOTION_KEYWORDS);
          score2 = score1 + real emotionCount * 0.08;
          questionMarks = match_count (CHR ''?'') text;
          score3 = score2 + real questionMarks * 0.15;
          exclamations = match_count (CHR ''!'') text;
          score4 = score3 + real exclamations * 0.1;
          totalLength = foldl (\<lambda>sum s. sum + length (seg_text s)) 0 segments;
          score5 = (if segments \<noteq> [] \<and> real totalLength / real (length segments) < 50
                    then score4 + 0.2 else score4);
          sentences = filter (\<lambda>s. length (trim s) > 0) (split_sentences text);
          score6 = (if length sentences \<ge> 3 \<and> length sentences \<le> 8
                    then score5 + 0.15 else score5)
      in min score6 1)"

definition detectEmotions :: "string \<Rightarrow> string list" where
  "detectEmotions text =
     (let lowerText = toLowerCase text
      in map fst (filter (\<lambda>(emotion, kws). list_ex (\<lambda>kw. str_includes lowerText kw) kws)
                    EMOTION_KEYWORDS))"

definition extractKeywords :: "string \<Rightarrow> string list" where
  "extractKeywords text =
     (let lowerText = toLowerCase text
      in filter (\<lambda>kw. str_includes lowerText kw) VIRAL_KEYWORDS)"

definition generateReason :: "string \<Rightarrow> real \<Rightarrow> string" where
  "generateReason text sc =
     (let reasons = (if str_includes text ''?'' then [''Engaging question''] else [])
                  @ (if str_includes text ''!'' then [''High energy''] else [])
                  @ (if length (extractKeywords text) > 0 then [''Viral keywords''] else [])
                  @ (if length (detectEmotions text) > 2 then [''Emotional appeal''] else []);
          joined = join reasons '', ''
      in if joined = [] then ''Interesting content'' else joined)"

text \<open>\<open>segments.slice(i, j + 1)\<close>.\<close>

definition slice :: "'a list \<Rightarrow> nat \<Rightarrow> nat \<Rightarrow> 'a list" where
  "slice xs i j = take (j - i) (drop i xs)"

text \<open>
  The object pushed for the window \<open>[i, j]\<close>. \<open>uuidv4()\<close> is modelled by a supply
  \<open>uuid\<close> of identifiers; the scan draws one identifier per pushed moment, so the moment
  pushed onto a list of \<open>k\<close> moments takes \<open>uuid k\<close>.
\<close>

definition window_moment ::
  "(nat \<Rightarrow> string) \<Rightarrow> transcript_segment list \<Rightarrow> nat \<Rightarrow> nat \<Rightarrow> nat \<Rightarrow> viral_moment" where
  "window_moment uuid segments i j k =
     (let windowSegments = slice segments i (j + 1);
          windowText = join (map seg_text windowSegments) '' ''
      in \<lparr> m_id = uuid k,
           m_start = seg_start (segments ! i),
           m_end = seg_end (segments ! j),
           m_score = Number (calculateViralScore windowText windowSegments),
           m_reason = generateReason windowText (calculateViralScore windowText windowSegments),
           m_text = windowText,
           m_emotions = detectEmotions windowText,
           m_keywords = extractKeywords windowText \<rparr>)"

text \<open>
  The inner loop of the sliding window, from the end index \<open>j\<close> on: \<open>continue\<close> below
  \<open>minDuration\<close>, \<open>break\<close> above \<open>maxDuration\<close>. It is entered with \<open>j = i + 1\<close>, so
  \<open>i < j < length segments\<close> at every read.
\<close>

function inner_loop ::
  "(nat \<Rightarrow> string) \<Rightarrow> transcript_segment list \<Rightarrow> real \<Rightarrow> real \<Rightarrow> nat \<Rightarrow> nat
     \<Rightarrow> viral_moment list \<Rightarrow> viral_moment list" where
  "inner_loop uuid segments minDuration maxDuration i j moments =
     (if j < length segments then
        (let startTime = seg_start (segments ! i);
             endTime = seg_end (segments ! j);
             duration = endTime - startTime
         in if duration < minDuration
            then inner_loop uuid segments minDuration maxDuration i (j + 1) moments
            else if duration > maxDuration then moments
            else (let windowSegments = slice segments i (j + 1);
                      windowText = join (map seg_text windowSegments) '' '';
                      score = calculateViralScore windowText windowSegments
                  in if score > 0.5
                     then inner_loop uuid segments minDuration maxDuration i (j + 1)
                            (moments @ [window_moment uuid segments i j (length moments)])
                     else inner_loop uuid segments minDuration maxDuration i (j + 1) moments))
      else moments)"
  by pat_completeness auto
termination
  by (relation "measure (\<lambda>(uuid, segments, minD, maxD, i, j, moments). length segments - j)") auto

function outer_loop ::
  "(nat \<Rightarrow> string) \<Rightarrow> transcript_segment list \<Rightarrow> real \<Rightarrow> real \<Rightarrow> nat
     \<Rightarrow> viral_moment list \<Rightarrow> viral_moment list" where
  "outer_loop uuid segments minDuration maxDuration i moments =
     (if i < length segments
      then outer_loop uuid segments minDuration maxDuration (i + 1)
             (inner_loop uuid segments minDuration maxDuration i (i + 1) moments)
      else moments)"
  by pat_completeness auto
termination
  by (relation "measure (\<lambda>(uuid, segments, minD, maxD, i, moments). length segments - i)") auto

declare inner_loop.simps [simp del] outer_loop.simps [simp del]

text \<open>The heuristic scan of \<open>detectViralMoments\<close>: the list \<open>moments\<close> after the loops.\<close>

definition scanMoments ::
  "(nat \<Rightarrow> string) \<Rightarrow> transcript_segment list \<Rightarrow> real \<Rightarrow> real \<Rightarrow> viral_moment list" where
  "scanMoments uuid segments minDuration maxDuration =
     outer_loop uuid segments minDuration maxDuration 0 []"

text \<open>
  \<open>moments.sort((a, b) => b.score - a.score)\<close>. When every score is a number the
  comparator is consistent, and \<open>Array.prototype.sort\<close>, which is stable, has one
  result: descending score, moments of equal score in the order they had before
  (\<open>sort_key\<close> is the stable insertion sort of the library). With a score \<open>NaN\<close> the
  comparator returns \<open>NaN\<close>, it is not consistent, and the language leaves the order to
  the engine: the model takes that order from a function \<open>engine\<close>, about which nothing
  is assumed.
\<close>

type_synonym sort_engine = "viral_moment list \<Rightarrow> viral_moment list"

definition sort_by_score_desc :: "sort_engine \<Rightarrow> viral_moment list \<Rightarrow> viral_moment list" where
  "sort_by_score_desc engine ms =
     (if list_all (\<lambda>m. is_number (m_score m)) ms
      then sort_key (\<lambda>m. - number_of (m_score m)) ms
      else engine ms)"

text \<open>Descending order of the scores, as \<open>>=\<close> compares them.\<close>

definition sorted_by_score_desc :: "viral_moment list \<Rightarrow> bool" where
  "sorted_by_score_desc ms = sorted_wrt (\<lambda>a b. js_ge (m_score a) (m_score b)) ms"

text \<open>
  One entry of the array \<open>result.clips\<close> of the ranking service's reply, as the code
  reads it: \<open>viralScore\<close> is the number the division \<open>ranking.viralScore / 10\<close> works
  on, \<open>NaN\<close> when the entry has no \<open>viralScore\<close> or one that converts to no number;
  \<open>clipNumber\<close> is compared with \<open>===\<close>, so one that is no number is one that equals
  no position; \<open>rk_reason\<close> is empty when the entry has no reason.
\<close>

record ranking =
  clipNumber :: real
  viralScore :: js_number
  rk_reason :: string

text \<open>
  What the \<open>try\<close> block of \<open>refineWithAI\<close> gets from the ranking service: the request
  throws; the content cannot be read (\<open>JSON.parse\<close> or the read of \<open>result.clips\<close>
  throws); \<open>result.clips\<close> is present but cannot be searched (\<open>rankings.find\<close> throws);
  or \<open>result.clips || []\<close> is an array of rankings, empty when the reply has no \<open>clips\<close>.
\<close>

datatype ranking_reply =
    RequestFailed string
  | Unparseable
  | ClipsNotArray
  | Clips "ranking list"

text \<open>The replies that end in the \<open>catch\<close> of \<open>refineWithAI\<close>.\<close>

fun is_failure :: "ranking_reply \<Rightarrow> bool" where
  "is_failure (RequestFailed e) = True"
| "is_failure Unparseable = True"
| "is_failure ClipsNotArray = True"
| "is_failure (Clips rankings) = False"

type_synonym ranking_service = "viral_moment list \<Rightarrow> string \<Rightarrow> ranking_reply"

text \<open>The callback of \<open>moments.map\<close> in \<open>refineWithAI\<close>.\<close>

definition apply_ranking :: "ranking list \<Rightarrow> nat \<Rightarrow> viral_moment \<Rightarrow> viral_moment" where
  "apply_ranking rankings index moment =
     (case find (\<lambda>r. clipNumber r = real (index + 1)) rankings of
        Some ranking \<Rightarrow>
          moment\<lparr> m_score := js_divide (viralScore ranking) 10,
                  m_reason := (if rk_reason ranking \<noteq> [] then rk_reason ranking
                               else m_reason moment) \<rparr>
      | None \<Rightarrow> moment)"

text \<open>
  \<open>refineWithAI\<close>. The service is asked about the submitted moments and the first 2000
  characters of the transcript; every exception of the \<open>try\<close> block ends in the
  \<open>catch\<close>, which returns \<open>moments\<close>. A reply that parses is applied as it is.
\<close>

definition refineWithAI ::
  "ranking_service \<Rightarrow> viral_moment list \<Rightarrow> string \<Rightarrow> viral_moment list" where
  "refineWithAI service moments fullTranscript =
     (case service moments (take 2000 fullTranscript) of
        Clips rankings \<Rightarrow>
          map (\<lambda>(index, moment). apply_ranking rankings index moment) (enumerate 0 moments)
      | RequestFailed e \<Rightarrow> moments
      | Unparseable \<Rightarrow> moments
      | ClipsNotArray \<Rightarrow> moments)"

definition fullText :: "transcript_segment list \<Rightarrow> string" where
  "fullText segments = join (map seg_text segments) '' ''"

text \<open>\<open>topMoments\<close>: what \<open>detectViralMoments\<close> hands to the refiner.\<close>

definition topMoments ::
  "(nat \<Rightarrow> string) \<Rightarrow> sort_engine \<Rightarrow> transcript_segment list \<Rightarrow> real \<Rightarrow> real
     \<Rightarrow> viral_moment list" where
  "topMoments uuid engine segments minDuration maxDuration =
     take 20 (sort_by_score_desc engine (scanMoments uuid segments minDuration maxDuration))"

definition refinedMoments ::
  "(nat \<Rightarrow> string) \<Rightarrow> sort_engine \<Rightarrow> ranking_service \<Rightarrow> transcript_segment list
     \<Rightarrow> real \<Rightarrow> real \<Rightarrow> viral_moment list" where
  "refinedMoments uuid engine service segments minDuration maxDuration =
     refineWithAI service (topMoments uuid engine segments minDuration maxDuration)
       (fullText segments)"

definition detectViralMoments ::
  "(nat \<Rightarrow> string) \<Rightarrow> sort_engine \<Rightarrow> ranking_service \<Rightarrow> transcript_segment list
     \<Rightarrow> real \<Rightarrow> real \<Rightarrow> viral_moment list" where
  "detectViralMoments uuid engine service segments minDuration maxDuration =
     take 10 (sort_by_score_desc engine
                (refinedMoments uuid engine service segments minDuration maxDuration))"

text \<open>
  The detector of the specification that uses the heuristic scorer only: the scorer's
  candidates, sorted by descending score, cut to the top ten.
\<close>

definition detectHeuristicOnly ::
  "(nat \<Rightarrow> string) \<Rightarrow> sort_engine \<Rightarrow> transcript_segment list \<Rightarrow> real \<Rightarrow> real
     \<Rightarrow> viral_moment list" where
  "detectHeuristicOnly uuid engine segments minDuration maxDuration =
     take 10 (sort_by_score_desc engine (scanMoments uuid segments minDuration maxDuration))"

subsection \<open>The windows of the specification\<close>

text \<open>The index pairs \<open>(i, j)\<close> with \<open>i < j < n\<close>, in the order the loops visit them.\<close>

definition window_pairs :: "nat \<Rightarrow> (nat \<times> nat) list" where
  "window_pairs n = concat (map (\<lambda>i. map (Pair i) [i + 1 ..< n]) [0 ..< n])"

definition window_duration :: "transcript_segment list \<Rightarrow> nat \<times> nat \<Rightarrow> real" where
  "window_duration segments w = seg_end (segments ! snd w) - seg_start (segments ! fst w)"

definition window_score :: "transcript_segment list \<Rightarrow> nat \<times> nat \<Rightarrow> real" where
  "window_score segments w =
     calculateViralScore (join (map seg_text (slice segments (fst w) (snd w + 1))) '' '')
       (slice segments (fst w) (snd w + 1))"

definition qualifies :: "transcript_segment list \<Rightarrow> real \<Rightarrow> real \<Rightarrow> nat \<times> nat \<Rightarrow> bool" where
  "qualifies segments minDuration maxDuration w =
     (minDuration \<le> window_duration segments w \<and> window_duration segments w \<le> maxDuration
      \<and> window_score segments w > 0.5)"

text \<open>The moments of a list of windows, pushed in turn onto \<open>moments\<close>.\<close>

fun emit ::
  "(nat \<Rightarrow> string) \<Rightarrow> transcript_segment list \<Rightarrow> (nat \<times> nat) list \<Rightarrow> viral_moment list
     \<Rightarrow> viral_moment list" where
  "emit uuid segments [] moments = moments"
| "emit uuid segments (w # ws) moments =
     emit uuid segments ws
       (moments @ [window_moment uuid segments (fst w) (snd w) (length moments)])"


section \<open>Video processing\<close>

text \<open>
  Emoji are written as the bytes of their UTF-8 encoding, which is what
  \<open>fs.writeFileSync\<close> puts into the subtitle file.
\<close>

definition EMOJI_MAP :: "(string \<times> string list) list" where
  "EMOJI_MAP =
     [(''excitement'',
        [[CHR 0xF0, CHR 0x9F, CHR 0x94, CHR 0xA5],
         [CHR 0xE2, CHR 0x9A, CHR 0xA1],
         [CHR 0xF0, CHR 0x9F, CHR 0x92, CHR 0xA5],
         [CHR 0xF0, CHR 0x9F, CHR 0x9A, CHR 0x80],
         [CHR 0xE2, CHR 0x9C, CHR 0xA8]]),
      (''surprise'',
        [[CHR 0xF0, CHR 0x9F, CHR 0x98, CHR 0xB1],
         [CHR 0xF0, CHR 0x9F, CHR 0xA4, CHR 0xAF],
         [CHR 0xF0, CHR 0x9F, CHR 0x98, CHR 0xAE],
         [CHR 0xF0, CHR 0x9F, CHR 0x91, CHR 0x80],
         [CHR 0xE2, CHR 0x80, CHR 0xBC, CHR 0xEF, CHR 0xB8, CHR 0x8F]]),
      (''urgency'',
        [[CHR 0xE2, CHR 0x8F, CHR 0xB0],
         [CHR 0xF0, CHR 0x9F, CHR 0x9A, CHR 0xA8],
         [CHR 0xE2, CHR 0x9D, CHR 0x97],
         [CHR 0xE2, CHR 0x9A, CHR 0xA0, CHR 0xEF, CHR 0xB8, CHR 0x8F],
         [CHR 0xF0, CHR 0x9F, CHR 0x94, CHR 0xB4]]),
      (''curiosity'',
        [[CHR 0xF0, CHR 0x9F, CHR 0xA4, CHR 0x94],
         [CHR 0xF0, CHR 0x9F, CHR 0x92, CHR 0xAD],
         [CHR 0xF0, CHR 0x9F, CHR 0xA7, CHR 0x90],
         [CHR 0xE2, CHR 0x9D, CHR 0x93],
         [CHR 0xF0, CHR 0x9F, CHR 0x94, CHR 0x8D]]),
      (''controversy'',
        [[CHR 0xF0, CHR 0x9F, CHR 0x92, CHR 0xA3],
         [CHR 0xF0, CHR 0x9F, CHR 0x8E, CHR 0xAF],
         [CHR 0xE2, CHR 0x9B, CHR 0x94],
         [CHR 0xF0, CHR 0x9F, CHR 0x9A, CHR 0xAB],
         [CHR 0xF0, CHR 0x9F, CHR 0x94, CHR 0xA5]]),
      (''positive'',
        [[CHR 0xF0, CHR 0x9F, CHR 0x98, CHR 0x8A],
         [CHR 0xE2, CHR 0x9D, CHR 0xA4, CHR 0xEF, CHR 0xB8, CHR 0x8F],
         [CHR 0xF0, CHR 0x9F, CHR 0x91, CHR 0x8D],
         [CHR 0xF0, CHR 0x9F, CHR 0x92, CHR 0xAF],
         [CHR 0xF0, CHR 0x9F, CHR 0x8E, CHR 0x89]]),
      (''negative'',
        [[CHR 0xF0, CHR 0x9F, CHR 0x98, CHR 0xA2],
         [CHR 0xF0, CHR 0x9F, CHR 0x98, CHR 0xA4],
         [CHR 0xF0, CHR 0x9F, CHR 0x92, CHR 0x94],
         [CHR 0xF0, CHR 0x9F, CHR 0x91, CHR 0x8E],
         [CHR 0xE2, CHR 0x9A, CHR 0xA0, CHR 0xEF, CHR 0xB8, CHR 0x8F]])]"

text \<open>\<open>String(n)\<close> for a natural number and for an integer.\<close>

fun decimal :: "nat \<Rightarrow> string" where
  "decimal n = (if n < 10 then [char_of (48 + n)] else decimal (n div 10) @ [char_of (48 + n mod 10)])"

declare decimal.simps [simp del]

definition string_of_int :: "int \<Rightarrow> string" where
  "string_of_int k = (if k < 0 then CHR ''-'' # decimal (nat (- k)) else decimal (nat k))"

definition padStart :: "string \<Rightarrow> nat \<Rightarrow> char \<Rightarrow> string" where
  "padStart s n c = replicate (n - length s) c @ s"

text \<open>
  The remainder \<open>x % y\<close> of JavaScript has the sign of the dividend: the quotient is
  truncated towards zero. The divisors below are the constants 3600, 60 and 1.
\<close>

definition js_rem :: "real \<Rightarrow> real \<Rightarrow> real" where
  "js_rem x y =
     x - y * of_int (if 0 \<le> x / y then \<lfloor>x / y\<rfloor> else \<lceil>x / y\<rceil>)"

definition formatSRTTime :: "real \<Rightarrow> string" where
  "formatSRTTime seconds =
     (let hours = \<lfloor>seconds / 3600\<rfloor>;
          minutes = \<lfloor>js_rem seconds 3600 / 60\<rfloor>;
          secs = \<lfloor>js_rem seconds 60\<rfloor>;
          milliseconds = \<lfloor>js_rem seconds 1 * 1000\<rfloor>
      in padStart (string_of_int hours) 2 (CHR ''0'') @ '':''
         @ padStart (string_of_int minutes) 2 (CHR ''0'') @ '':''
         @ padStart (string_of_int secs) 2 (CHR ''0'') @ '',''
         @ padStart (string_of_int milliseconds) 3 (CHR ''0''))"

text \<open>
  \<open>selectEmoji\<close>. \<open>Math.random()\<close> is a supply \<open>random\<close> of numbers with a count of
  the numbers drawn so far; the function returns the emoji and the new count. The first
  emotion with an entry in \<open>EMOJI_MAP\<close> decides. An index outside the entry (which no
  number of \<open>[0, 1)\<close> gives) reads \<open>undefined\<close>, which the caller treats like the empty
  string.
\<close>

definition selectEmoji :: "(nat \<Rightarrow> real) \<Rightarrow> nat \<Rightarrow> string \<Rightarrow> string list \<Rightarrow> string \<times> nat" where
  "selectEmoji random rc text es =
     (let lowerText = toLowerCase text
      in case find (\<lambda>emotion. map_of EMOJI_MAP emotion \<noteq> None) es of
           Some emotion \<Rightarrow>
             (let emojis = the (map_of EMOJI_MAP emotion);
                  k = \<lfloor>random rc * real (length emojis)\<rfloor>
              in (if 0 \<le> k \<and> nat k < length emojis then emojis ! nat k else [], rc + 1))
         | None \<Rightarrow>
             (if str_includes lowerText ''!'' then [CHR 0xE2, CHR 0x80, CHR 0xBC, CHR 0xEF, CHR 0xB8, CHR 0x8F]
              else if str_includes lowerText ''?'' then [CHR 0xF0, CHR 0x9F, CHR 0xA4, CHR 0x94]
              else if str_includes lowerText ''love'' \<or> str_includes lowerText ''great''
                then [CHR 0xE2, CHR 0x9D, CHR 0xA4, CHR 0xEF, CHR 0xB8, CHR 0x8F]
              else if str_includes lowerText ''bad'' \<or> str_includes lowerText ''hate''
                then [CHR 0xF0, CHR 0x9F, CHR 0x98, CHR 0xA4]
              else [], rc))"

text \<open>The containment filter of \<open>generateSRT\<close>.\<close>

definition relevantSegments :: "transcript_segment list \<Rightarrow> viral_moment \<Rightarrow> transcript_segment list" where
  "relevantSegments segments moment =
     filter (\<lambda>s. seg_start s \<ge> m_start moment \<and> seg_end s \<le> m_end moment) segments"

text \<open>
  The loop \<open>relevantSegments.forEach\<close> of \<open>generateSRT\<close> from the segment at \<open>index\<close> on:
  each segment appends its number, its two times and its text to \<open>srtContent\<close>.
\<close>

fun srt_loop ::
  "(nat \<Rightarrow> real) \<Rightarrow> viral_moment \<Rightarrow> bool \<Rightarrow> nat \<Rightarrow> transcript_segment list \<Rightarrow> string \<Rightarrow> nat
     \<Rightarrow> string \<times> nat" where
  "srt_loop random moment addEmojis index [] srtContent rc = (srtContent, rc)"
| "srt_loop random moment addEmojis index (segment # rest) srtContent rc =
     (let startTime = formatSRTTime (seg_start segment - m_start moment);
          endTime = formatSRTTime (seg_end segment - m_start moment);
          text0 = trim (seg_text segment);
          (text1, rc1) =
            (if addEmojis then
               (let (emoji, rc') = selectEmoji random rc text0 (m_emotions moment)
                in if emoji \<noteq> []
                   then (if random rc' > 0.5 then emoji @ '' '' @ text0 else text0, rc' + 1)
                   else (text0, rc'))
             else (text0, rc))
      in srt_loop random moment addEmojis (index + 1) rest
           (srtContent @ decimal (index + 1) @ [CHR 0x0A]
              @ startTime @ '' --> '' @ endTime @ [CHR 0x0A]
              @ text1 @ [CHR 0x0A, CHR 0x0A])
           rc1)"

definition generateSRT ::
  "(nat \<Rightarrow> real) \<Rightarrow> transcript_segment list \<Rightarrow> viral_moment \<Rightarrow> bool \<Rightarrow> nat \<Rightarrow> string \<times> nat" where
  "generateSRT random segments moment addEmojis rc =
     srt_loop random moment addEmojis 0 (relevantSegments segments moment) [] rc"

section \<open>The clip pipeline\<close>

subsection \<open>Request values\<close>

text \<open>The values a parsed JSON request body can hold, and \<open>undefined\<close>.\<close>

datatype js_value =
    JUndefined
  | JNull
  | JBool bool
  | JNum real
  | JStr string
  | JArr "js_value list"
  | JObj "(string \<times> js_value) list"

fun truthy :: "js_value \<Rightarrow> bool" where
  "truthy JUndefined = False"
| "truthy JNull = False"
| "truthy (JBool b) = b"
| "truthy (JNum x) = (x \<noteq> 0)"
| "truthy (JStr s) = (s \<noteq> [])"
| "truthy (JArr vs) = True"
| "truthy (JObj kvs) = True"

text \<open>
  \<open>v.name\<close> for the property names read by the pipeline (\<open>format\<close>, \<open>addCaptions\<close>,
  \<open>addEmojis\<close>, \<open>addZoomPan\<close>): a property of \<open>undefined\<close> or \<open>null\<close> throws a
  \<open>TypeError\<close>, an object gives the value stored under the name or \<open>undefined\<close>, and
  no other value has a property of these names.
\<close>

fun get_prop :: "js_value \<Rightarrow> string \<Rightarrow> string + js_value" where
  "get_prop JUndefined name = Inl (''Cannot read properties of undefined (reading '' @ name @ '')'')"
| "get_prop JNull name = Inl (''Cannot read properties of null (reading '' @ name @ '')'')"
| "get_prop (JObj kvs) name = Inr (case map_of kvs name of None \<Rightarrow> JUndefined | Some v \<Rightarrow> v)"
| "get_prop v name = Inr JUndefined"

text \<open>\<open>config || {}\<close>, the argument \<open>POST\<close> passes to \<open>processClips\<close>.\<close>

definition config_or_empty :: "js_value \<Rightarrow> js_value" where
  "config_or_empty config = (if truthy config then config else JObj [])"

record clip_config =
  cfg_format :: js_value
  cfg_addCaptions :: bool
  cfg_addEmojis :: bool
  cfg_addZoomPan :: bool

text \<open>
  The four reads at the head of the loop body: \<open>config.format || '9:16'\<close> and
  \<open>config.flag !== false\<close> for the three flags.
\<close>

definition read_config :: "js_value \<Rightarrow> string + clip_config" where
  "read_config config =
     (case get_prop config ''format'' of Inl e \<Rightarrow> Inl e | Inr f \<Rightarrow>
      case get_prop config ''addCaptions'' of Inl e \<Rightarrow> Inl e | Inr c \<Rightarrow>
      case get_prop config ''addEmojis'' of Inl e \<Rightarrow> Inl e | Inr m \<Rightarrow>
      case get_prop config ''addZoomPan'' of Inl e \<Rightarrow> Inl e | Inr z \<Rightarrow>
        Inr \<lparr> cfg_format = (if truthy f then f else JStr ''9:16''),
              cfg_addCaptions = (c \<noteq> JBool False),
              cfg_addEmojis = (m \<noteq> JBool False),
              cfg_addZoomPan = (z \<noteq> JBool False) \<rparr>)"

subsection \<open>Files, the job store and the media tool\<close>

type_synonym path = string
type_synonym bytes = string
type_synonym file_system = "path \<Rightarrow> bytes option"

record processed_clip =
  pc_id :: string
  pc_videoPath :: "path option"
  pc_thumbnailPath :: "path option"
  pc_duration :: "real option"
  pc_error :: "string option"
  pc_moment :: viral_moment
  pc_ready :: bool

datatype job_status = Processing | Completed | Failed

text \<open>A snapshot of a clip job: an object literal, each property present or absent.\<close>

record clip_job =
  cj_id :: "string option"
  cj_status :: "job_status option"
  cj_progress :: "int option"
  cj_currentStep :: "string option"
  cj_totalClips :: "nat option"
  cj_processedClips :: "nat option"
  cj_result :: "processed_clip list option"
  cj_error :: "string option"

definition empty_clip_job :: clip_job where
  "empty_clip_job =
     \<lparr> cj_id = None, cj_status = None, cj_progress = None, cj_currentStep = None,
       cj_totalClips = None, cj_processedClips = None, cj_result = None, cj_error = None \<rparr>"

text \<open>
  Modelled from the spec: the job store \<open>clipJobs\<close> of \<open>@/lib/storage\<close>, a keyed map with
  \<open>get(id)\<close> giving a snapshot or nothing and \<open>set(id, snapshot)\<close> replacing the whole
  entry.

  The state the pipeline changes: the files on disk, the clip job store, and how many
  identifiers and random numbers have been drawn.
\<close>

record world =
  files :: file_system
  clipJobs :: "string \<Rightarrow> clip_job option"
  uuidCount :: nat
  randomCount :: nat

text \<open>
  What the pipeline takes from outside. Every \<open>ffmpeg\<close> run is a function of the files
  on disk and of the parameters of its command line; it either fails with a message
  (\<open>execAsync\<close> rejects, nothing is written) or gives the bytes it writes to its output
  path.
\<close>

record pipeline_env =
  ffmpeg_crop :: "file_system \<Rightarrow> path \<Rightarrow> path \<Rightarrow> real \<Rightarrow> real \<Rightarrow> string \<Rightarrow> string + bytes"
  ffmpeg_subtitles :: "file_system \<Rightarrow> path \<Rightarrow> path \<Rightarrow> path \<Rightarrow> string + bytes"
  ffmpeg_zoompan :: "file_system \<Rightarrow> path \<Rightarrow> path \<Rightarrow> real \<Rightarrow> string + bytes"
  ffmpeg_thumbnail :: "file_system \<Rightarrow> path \<Rightarrow> path \<Rightarrow> real \<Rightarrow> string + bytes"
  uuidv4 :: "nat \<Rightarrow> string"
  math_random :: "nat \<Rightarrow> real"
  CLIPS_DIR :: path

text \<open>A call either throws a message or returns a value; both leave a state behind.\<close>

datatype 'a outcome = Threw string world | Returned 'a world

text \<open>
  \<open>path.join(CLIPS_DIR, name)\<close> for a normalised directory and a plain file name.
\<close>

definition path_join :: "path \<Rightarrow> string \<Rightarrow> path" where
  "path_join dir name = dir @ ''/'' @ name"

text \<open>\<open>s.replace(pat, rep)\<close> for a string pattern: the first occurrence is replaced.\<close>

fun replace_first :: "string \<Rightarrow> string \<Rightarrow> string \<Rightarrow> string" where
  "replace_first pat rep [] = (if pat = [] then rep else [])"
| "replace_first pat rep (c # cs) =
     (if starts_with (c # cs) pat then rep @ drop (length pat) (c # cs)
      else c # replace_first pat rep cs)"

definition unlinkSync :: "path \<Rightarrow> world \<Rightarrow> unit outcome" where
  "unlinkSync p w =
     (case files w p of
        None \<Rightarrow> Threw (''ENOENT: no such file or directory, unlink '' @ p) w
      | Some b \<Rightarrow> Returned () (w\<lparr>files := (files w)(p := None)\<rparr>))"

definition renameSync :: "path \<Rightarrow> path \<Rightarrow> world \<Rightarrow> unit outcome" where
  "renameSync old new w =
     (case files w old of
        None \<Rightarrow> Threw (''ENOENT: no such file or directory, rename '' @ old) w
      | Some b \<Rightarrow> Returned () (w\<lparr>files := ((files w)(old := None))(new \<mapsto> b)\<rparr>))"

definition copyFileSync :: "path \<Rightarrow> path \<Rightarrow> world \<Rightarrow> unit outcome" where
  "copyFileSync src dst w =
     (case files w src of
        None \<Rightarrow> Threw (''ENOENT: no such file or directory, copyfile '' @ src) w
      | Some b \<Rightarrow> Returned () (w\<lparr>files := (files w)(dst \<mapsto> b)\<rparr>))"

definition writeFileSync :: "path \<Rightarrow> bytes \<Rightarrow> world \<Rightarrow> world" where
  "writeFileSync p b w = w\<lparr>files := (files w)(p \<mapsto> b)\<rparr>"

subsection \<open>The stages\<close>

definition cropFilter :: "js_value \<Rightarrow> string" where
  "cropFilter format =
     (if format = JStr ''9:16''
      then ''scale=1920:1080:force_original_aspect_ratio=increase,crop=1080:1920,scale=1080:1920''
      else if format = JStr ''1:1''
      then ''scale=1080:1080:force_original_aspect_ratio=increase,crop=1080:1080''
      else ''scale=1920:1080:force_original_aspect_ratio=decrease,pad=1920:1080:(ow-iw)/2:(oh-ih)/2'')"

definition createClip ::
  "pipeline_env \<Rightarrow> path \<Rightarrow> path \<Rightarrow> real \<Rightarrow> real \<Rightarrow> js_value \<Rightarrow> world \<Rightarrow> unit outcome" where
  "createClip env videoPath outputPath startTime endTime format w =
     (let duration = endTime - startTime
      in case ffmpeg_crop env (files w) videoPath outputPath startTime duration (cropFilter format) of
           Inl e \<Rightarrow> Threw e w
         | Inr b \<Rightarrow> Returned () (writeFileSync outputPath b w))"

definition addCaptionsToVideo ::
  "pipeline_env \<Rightarrow> path \<Rightarrow> path \<Rightarrow> transcript_segment list \<Rightarrow> viral_moment \<Rightarrow> bool \<Rightarrow> world
     \<Rightarrow> unit outcome" where
  "addCaptionsToVideo env videoPath outputPath segments moment addEmojis w =
     (let srtPath = replace_first ''.mp4'' ''.srt'' videoPath;
          (srtContent, rc) = generateSRT (math_random env) segments moment addEmojis (randomCount w);
          w1 = writeFileSync srtPath srtContent (w\<lparr>randomCount := rc\<rparr>)
      in case ffmpeg_subtitles env (files w1) videoPath srtPath outputPath of
           Inl e \<Rightarrow> Threw e w1
         | Inr b \<Rightarrow> unlinkSync srtPath (writeFileSync outputPath b w1))"

text \<open>\<open>addZoomPanEffect\<close> with its default intensity: a failed effect is replaced by a copy.\<close>

definition addZoomPanEffect :: "pipeline_env \<Rightarrow> path \<Rightarrow> path \<Rightarrow> world \<Rightarrow> unit outcome" where
  "addZoomPanEffect env videoPath outputPath w =
     (case ffmpeg_zoompan env (files w) videoPath outputPath 0.05 of
        Inl e \<Rightarrow> copyFileSync videoPath outputPath w
      | Inr b \<Rightarrow> Returned () (writeFileSync outputPath b w))"

definition generateThumbnail ::
  "pipeline_env \<Rightarrow> path \<Rightarrow> path \<Rightarrow> real \<Rightarrow> world \<Rightarrow> unit outcome" where
  "generateThumbnail env videoPath outputPath timeOffset w =
     (case ffmpeg_thumbnail env (files w) videoPath outputPath timeOffset of
        Inl e \<Rightarrow> Threw e w
      | Inr b \<Rightarrow> Returned () (writeFileSync outputPath b w))"

subsection \<open>\<open>processClips\<close>\<close>

text \<open>Step 2 of the loop body: the value of \<open>processedPath\<close> after it.\<close>

definition caption_step ::
  "pipeline_env \<Rightarrow> clip_config \<Rightarrow> string \<Rightarrow> path \<Rightarrow> transcript_segment list \<Rightarrow> viral_moment \<Rightarrow> world
     \<Rightarrow> path outcome" where
  "caption_step env cfg clipId baseClipPath segments moment w =
     (if cfg_addCaptions cfg then
        (let captionedPath = path_join (CLIPS_DIR env) (clipId @ ''_captioned.mp4'')
         in case addCaptionsToVideo env baseClipPath captionedPath segments moment
                   (cfg_addEmojis cfg) w of
              Threw e w1 \<Rightarrow> Threw e w1
            | Returned u w1 \<Rightarrow>
                (case unlinkSync baseClipPath w1 of
                   Threw e w2 \<Rightarrow> Threw e w2
                 | Returned u w2 \<Rightarrow> Returned captionedPath w2))
      else Returned baseClipPath w)"

text \<open>Step 3 of the loop body: the value of \<open>finalPath\<close> after it.\<close>

definition zoom_step ::
  "pipeline_env \<Rightarrow> clip_config \<Rightarrow> string \<Rightarrow> path \<Rightarrow> path \<Rightarrow> world \<Rightarrow> path outcome" where
  "zoom_step env cfg clipId baseClipPath processedPath w =
     (if cfg_addZoomPan cfg then
        (let zoomPath = path_join (CLIPS_DIR env) (clipId @ ''_final.mp4'')
         in case addZoomPanEffect env processedPath zoomPath w of
              Threw e w1 \<Rightarrow> Threw e w1
            | Returned u w1 \<Rightarrow>
                (if processedPath \<noteq> baseClipPath
                 then (case unlinkSync processedPath w1 of
                         Threw e w2 \<Rightarrow> Threw e w2
                       | Returned u w2 \<Rightarrow> Returned zoomPath w2)
                 else Returned zoomPath w1))
      else Returned processedPath w)"

text \<open>The renaming and the thumbnail, up to the clip pushed by the \<open>try\<close> block.\<close>

definition finish_step ::
  "pipeline_env \<Rightarrow> string \<Rightarrow> path \<Rightarrow> viral_moment \<Rightarrow> world \<Rightarrow> processed_clip outcome" where
  "finish_step env clipId finalPath moment w =
     (let finalClipPath = path_join (CLIPS_DIR env) (clipId @ ''.mp4'');
          thumbnailPath = path_join (CLIPS_DIR env) (clipId @ ''_thumb.jpg'')
      in case (if finalPath \<noteq> finalClipPath then renameSync finalPath finalClipPath w
               else Returned () w) of
           Threw e w1 \<Rightarrow> Threw e w1
         | Returned u w1 \<Rightarrow>
             (case generateThumbnail env finalClipPath thumbnailPath 1 w1 of
                Threw e w2 \<Rightarrow> Threw e w2
              | Returned u w2 \<Rightarrow>
                  Returned \<lparr> pc_id = clipId, pc_videoPath = Some finalClipPath,
                             pc_thumbnailPath = Some thumbnailPath,
                             pc_duration = Some (m_end moment - m_start moment),
                             pc_error = None, pc_moment = moment, pc_ready = True \<rparr> w2))"

text \<open>The progress snapshot written before a clip starts.\<close>

definition report_progress :: "string \<Rightarrow> nat \<Rightarrow> nat \<Rightarrow> world \<Rightarrow> world" where
  "report_progress clipJobId i totalClips w =
     w\<lparr>clipJobs := (clipJobs w)(clipJobId \<mapsto>
         (case clipJobs w clipJobId of None \<Rightarrow> empty_clip_job | Some j \<Rightarrow> j)
           \<lparr> cj_progress := Some \<lfloor>real i / real totalClips * 100\<rfloor>,
             cj_currentStep := Some (''Processing clip '' @ decimal (i + 1) @ ''/'' @ decimal totalClips),
             cj_processedClips := Some i \<rparr>)\<rparr>"

text \<open>The \<open>try\<close> block of the loop body for the moment at index \<open>i\<close>.\<close>

definition clip_body ::
  "pipeline_env \<Rightarrow> string \<Rightarrow> path \<Rightarrow> transcript_segment list \<Rightarrow> nat \<Rightarrow> js_value \<Rightarrow> nat
     \<Rightarrow> viral_moment \<Rightarrow> world \<Rightarrow> processed_clip outcome" where
  "clip_body env clipJobId videoPath segments totalClips config i moment w =
     (let w1 = report_progress clipJobId i totalClips w;
          clipId = uuidv4 env (uuidCount w1);
          w2 = w1\<lparr>uuidCount := uuidCount w1 + 1\<rparr>
      in case read_config config of
           Inl e \<Rightarrow> Threw e w2
         | Inr cfg \<Rightarrow>
             (let baseClipPath = path_join (CLIPS_DIR env) (clipId @ ''_base.mp4'')
              in case createClip env videoPath baseClipPath (m_start moment) (m_end moment)
                        (cfg_format cfg) w2 of
                   Threw e w3 \<Rightarrow> Threw e w3
                 | Returned u w3 \<Rightarrow>
                     (case caption_step env cfg clipId baseClipPath segments moment w3 of
                        Threw e w4 \<Rightarrow> Threw e w4
                      | Returned processedPath w4 \<Rightarrow>
                          (case zoom_step env cfg clipId baseClipPath processedPath w4 of
                             Threw e w5 \<Rightarrow> Threw e w5
                           | Returned finalPath w5 \<Rightarrow>
                               finish_step env clipId finalPath moment w5))))"

text \<open>
  The loop of \<open>processClips\<close> from index \<open>i\<close> on, over the moments still to do: the
  \<open>catch\<close> turns a throw into a clip that is not ready, under a fresh identifier.
\<close>

fun clip_loop ::
  "pipeline_env \<Rightarrow> string \<Rightarrow> path \<Rightarrow> transcript_segment list \<Rightarrow> nat \<Rightarrow> js_value \<Rightarrow> nat
     \<Rightarrow> viral_moment list \<Rightarrow> processed_clip list \<Rightarrow> world \<Rightarrow> processed_clip list \<times> world" where
  "clip_loop env clipJobId videoPath segments totalClips config i [] clips w = (clips, w)"
| "clip_loop env clipJobId videoPath segments totalClips config i (moment # rest) clips w =
     (case clip_body env clipJobId videoPath segments totalClips config i moment w of
        Returned clip w1 \<Rightarrow>
          clip_loop env clipJobId videoPath segments totalClips config (i + 1) rest (clips @ [clip]) w1
      | Threw e w1 \<Rightarrow>
          clip_loop env clipJobId videoPath segments totalClips config (i + 1) rest
            (clips @ [\<lparr> pc_id = uuidv4 env (uuidCount w1), pc_videoPath = None,
                         pc_thumbnailPath = None, pc_duration = None, pc_error = Some e,
                         pc_moment = moment, pc_ready = False \<rparr>])
            (w1\<lparr>uuidCount := uuidCount w1 + 1\<rparr>))"

definition processClips ::
  "pipeline_env \<Rightarrow> string \<Rightarrow> path \<Rightarrow> transcript_segment list \<Rightarrow> viral_moment list \<Rightarrow> js_value
     \<Rightarrow> world \<Rightarrow> world" where
  "processClips env clipJobId videoPath segments moments config w =
     (let (clips, w1) =
            clip_loop env clipJobId videoPath segments (length moments) config 0 moments [] w
      in w1\<lparr>clipJobs := (clipJobs w1)(clipJobId \<mapsto>
           \<lparr> cj_id = Some clipJobId, cj_status = Some Completed, cj_progress = Some 100,
             cj_currentStep = Some ''Complete'', cj_totalClips = Some (length moments),
             cj_processedClips = Some (length moments), cj_result = Some clips,
             cj_error = None \<rparr>)\<rparr>)"

text \<open>
  The end of \<open>POST\<close> for a valid request: the job is created in state \<open>processing\<close>
  under a fresh identifier and \<open>processClips\<close> runs with \<open>config || {}\<close>. The model of
  \<open>processClips\<close> never throws, so the \<open>catch\<close> at the call site stays unused.
\<close>

definition startClipJob ::
  "pipeline_env \<Rightarrow> path \<Rightarrow> transcript_segment list \<Rightarrow> viral_moment list \<Rightarrow> js_value \<Rightarrow> world
     \<Rightarrow> string \<times> world" where
  "startClipJob env videoPath segments selectedMoments config w =
     (let clipJobId = uuidv4 env (uuidCount w);
          w1 = w\<lparr> uuidCount := uuidCount w + 1,
                  clipJobs := (clipJobs w)(clipJobId \<mapsto>
                    \<lparr> cj_id = Some clipJobId, cj_status = Some Processing, cj_progress = Some 0,
                      cj_currentStep = Some ''Preparing clips'',
                      cj_totalClips = Some (length selectedMoments),
                      cj_processedClips = Some 0, cj_result = None, cj_error = None \<rparr>) \<rparr>
      in (clipJobId,
          processClips env clipJobId videoPath segments selectedMoments (config_or_empty config) w1))"

subsection \<open>Stages that throw\<close>

text \<open>
  A stage throws for a moment whatever the state of the disk: the crop of the moment's
  time range fails for every source, destination and format; the caption stage is
  switched on and the subtitle burn-in fails on every input; the thumbnail extraction
  fails on every input.
\<close>

definition crop_throws :: "pipeline_env \<Rightarrow> viral_moment \<Rightarrow> bool" where
  "crop_throws env moment =
     (\<forall>fs src dst f. isl (ffmpeg_crop env fs src dst (m_start moment)
                             (m_end moment - m_start moment) f))"

definition caption_throws :: "pipeline_env \<Rightarrow> js_value \<Rightarrow> bool" where
  "caption_throws env config =
     ((\<exists>cfg. read_config config = Inr cfg \<and> cfg_addCaptions cfg)
      \<and> (\<forall>fs src srt dst. isl (ffmpeg_subtitles env fs src srt dst)))"

definition thumbnail_throws :: "pipeline_env \<Rightarrow> bool" where
  "thumbnail_throws env = (\<forall>fs src dst t. isl (ffmpeg_thumbnail env fs src dst t))"

text \<open>The two shapes of a clip in the result: ready with its paths, or failed with an error.\<close>

definition clip_well_formed :: "processed_clip \<Rightarrow> bool" where
  "clip_well_formed c =
     (if pc_ready c
      then pc_error c = None \<and> pc_videoPath c \<noteq> None \<and> pc_thumbnailPath c \<noteq> None
      else pc_error c \<noteq> None \<and> pc_videoPath c = None \<and> pc_thumbnailPath c = None)"

section \<open>Ingestion\<close>

datatype source_kind = YouTube | Upload | Audio

record ingest_result =
  ir_videoPath :: path
  ir_segments :: "transcript_segment list"
  ir_moments :: "viral_moment list"
  ir_duration :: real
  ir_source :: source_kind

text \<open>A snapshot of an ingestion job: an object literal, each property present or absent.\<close>

record ingest_job =
  ij_id :: "string option"
  ij_status :: "job_status option"
  ij_progress :: "nat option"
  ij_currentStep :: "string option"
  ij_result :: "ingest_result option"
  ij_error :: "string option"

definition empty_ingest_job :: ingest_job where
  "empty_ingest_job =
     \<lparr> ij_id = None, ij_status = None, ij_progress = None, ij_currentStep = None,
       ij_result = None, ij_error = None \<rparr>"

text \<open>
  Modelled from the spec: the job store \<open>jobs\<close> of \<open>@/lib/storage\<close>, a keyed map with
  \<open>get(id)\<close> giving a snapshot or nothing and \<open>set(id, snapshot)\<close> replacing the whole
  entry.
\<close>

type_synonym job_store = "string \<Rightarrow> ingest_job option"

text \<open>
  The collaborators of the ingestion, each a call that throws a message or returns:
  the transcript fetch, the download, the two audio conversions, the transcription, the
  moment detection, the duration probe and the removal of the audio file.
\<close>

record ingest_env =
  getYouTubeTranscript :: "string \<Rightarrow> string + transcript_segment list"
  downloadYouTubeVideo :: "string \<Rightarrow> path \<Rightarrow> string + unit"
  extractAudioFromVideo :: "path \<Rightarrow> path \<Rightarrow> string + unit"
  convertAudio :: "path \<Rightarrow> path \<Rightarrow> string + unit"
  transcribeVideo :: "path \<Rightarrow> string + transcript_segment list"
  detectMoments :: "transcript_segment list \<Rightarrow> string + viral_moment list"
  getVideoDuration :: "path \<Rightarrow> string + real"
  unlinkAudio :: "path \<Rightarrow> string + unit"
  TEMP_DIR :: path

text \<open>\<open>jobs.set(jobId, {...jobs.get(jobId), progress, currentStep})\<close>.\<close>

definition set_step :: "string \<Rightarrow> nat \<Rightarrow> string \<Rightarrow> job_store \<Rightarrow> job_store" where
  "set_step jobId progress currentStep jobs =
     jobs(jobId \<mapsto>
       (case jobs jobId of None \<Rightarrow> empty_ingest_job | Some j \<Rightarrow> j)
         \<lparr> ij_progress := Some progress, ij_currentStep := Some currentStep \<rparr>)"

definition completed_job :: "string \<Rightarrow> ingest_result \<Rightarrow> ingest_job" where
  "completed_job jobId res =
     \<lparr> ij_id = Some jobId, ij_status = Some Completed, ij_progress = Some 100,
       ij_currentStep = Some ''Complete'', ij_result = Some res, ij_error = None \<rparr>"

text \<open>The snapshot written by the \<open>catch\<close> at the call site: \<open>{id, status: 'failed', error}\<close>.\<close>

definition failed_job :: "string \<Rightarrow> string \<Rightarrow> ingest_job" where
  "failed_job jobId message =
     \<lparr> ij_id = Some jobId, ij_status = Some Failed, ij_progress = None,
       ij_currentStep = None, ij_result = None, ij_error = Some message \<rparr>"

text \<open>
  \<open>processYouTubeVideo\<close> from the progress update before the detection on, with the
  segments found so far.
\<close>

definition youtube_detect ::
  "ingest_env \<Rightarrow> string \<Rightarrow> path \<Rightarrow> transcript_segment list \<Rightarrow> job_store
     \<Rightarrow> (string + unit) \<times> job_store" where
  "youtube_detect env jobId videoPath segments jobs =
     (let jobs1 = set_step jobId 60 ''Detecting viral moments'' jobs
      in case detectMoments env segments of
           Inl e \<Rightarrow> (Inl e, jobs1)
         | Inr moments \<Rightarrow>
             (case getVideoDuration env videoPath of
                Inl e \<Rightarrow> (Inl e, jobs1)
              | Inr duration \<Rightarrow>
                  (Inr (), jobs1(jobId \<mapsto> completed_job jobId
                     \<lparr> ir_videoPath = videoPath, ir_segments = segments, ir_moments = moments,
                       ir_duration = duration, ir_source = YouTube \<rparr>))))"

text \<open>
  \<open>processYouTubeVideo\<close>: a failed transcript fetch sets \<open>needsDownload\<close>; every other
  throw leaves the function.
\<close>

definition processYouTubeVideo ::
  "ingest_env \<Rightarrow> string \<Rightarrow> string \<Rightarrow> string \<Rightarrow> path \<Rightarrow> job_store \<Rightarrow> (string + unit) \<times> job_store" where
  "processYouTubeVideo env jobId url videoId videoPath jobs =
     (let jobs1 = set_step jobId 10 ''Fetching transcript'' jobs
      in case getYouTubeTranscript env videoId of
           Inl e0 \<Rightarrow>
             (let jobs2 = set_step jobId 20 ''Downloading video'' jobs1
              in case downloadYouTubeVideo env url videoPath of
                   Inl e \<Rightarrow> (Inl e, jobs2)
                 | Inr u \<Rightarrow>
                     (let jobs3 = set_step jobId 40 ''Transcribing audio'' jobs2;
                          audioPath = path_join (TEMP_DIR env) (jobId @ ''.wav'')
                      in case extractAudioFromVideo env videoPath audioPath of
                           Inl e \<Rightarrow> (Inl e, jobs3)
                         | Inr u \<Rightarrow>
                             (case transcribeVideo env audioPath of
                                Inl e \<Rightarrow> (Inl e, jobs3)
                              | Inr segments \<Rightarrow>
                                  (case unlinkAudio env audioPath of
                                     Inl e \<Rightarrow> (Inl e, jobs3)
                                   | Inr u \<Rightarrow> youtube_detect env jobId videoPath segments jobs3))))
         | Inr segments \<Rightarrow>
             (let jobs2 = set_step jobId 30 ''Downloading video'' jobs1
              in case downloadYouTubeVideo env url videoPath of
                   Inl e \<Rightarrow> (Inl e, jobs2)
                 | Inr u \<Rightarrow> youtube_detect env jobId videoPath segments jobs2))"

text \<open>
  The branch of \<open>POST\<close> for a valid YouTube request, run to the end of the background
  task: the job is created, \<open>processYouTubeVideo\<close> runs, and the \<open>catch\<close> at the call
  site replaces the entry when it throws.
\<close>

definition ingestYouTube ::
  "ingest_env \<Rightarrow> string \<Rightarrow> string \<Rightarrow> string \<Rightarrow> path \<Rightarrow> job_store \<Rightarrow> job_store" where
  "ingestYouTube env jobId url videoId videoPath jobs =
     (let jobs1 = jobs(jobId \<mapsto>
            \<lparr> ij_id = Some jobId, ij_status = Some Processing, ij_progress = Some 0,
              ij_currentStep = Some ''Downloading video'', ij_result = None, ij_error = None \<rparr>)
      in case processYouTubeVideo env jobId url videoId videoPath jobs1 of
           (Inl e, jobs2) \<Rightarrow> jobs2(jobId \<mapsto> failed_job jobId e)
         | (Inr u, jobs2) \<Rightarrow> jobs2)"

text \<open>\<open>processUploadedFile\<close> for the sources \<open>upload\<close> and \<open>audio\<close>.\<close>

definition processUploadedFile ::
  "ingest_env \<Rightarrow> string \<Rightarrow> path \<Rightarrow> source_kind \<Rightarrow> job_store \<Rightarrow> (string + unit) \<times> job_store" where
  "processUploadedFile env jobId videoPath source jobs =
     (let jobs1 = set_step jobId 20 ''Extracting audio'' jobs;
          audioPath = path_join (TEMP_DIR env) (jobId @ ''.wav'')
      in case (if source = Audio then convertAudio env videoPath audioPath
               else extractAudioFromVideo env videoPath audioPath) of
           Inl e \<Rightarrow> (Inl e, jobs1)
         | Inr u \<Rightarrow>
             (let jobs2 = set_step jobId 40 ''Transcribing audio'' jobs1
              in case transcribeVideo env audioPath of
                   Inl e \<Rightarrow> (Inl e, jobs2)
                 | Inr segments \<Rightarrow>
                     (case unlinkAudio env audioPath of
                        Inl e \<Rightarrow> (Inl e, jobs2)
                      | Inr u \<Rightarrow>
                          (let jobs3 = set_step jobId 70 ''Detecting viral moments'' jobs2
                           in case detectMoments env segments of
                                Inl e \<Rightarrow> (Inl e, jobs3)
                              | Inr moments \<Rightarrow>
                                  (case (if source = Upload then getVideoDuration env videoPath
                                         else Inr 0) of
                                     Inl e \<Rightarrow> (Inl e, jobs3)
                                   | Inr duration \<Rightarrow>
                                       (Inr (), jobs3(jobId \<mapsto> completed_job jobId
                                          \<lparr> ir_videoPath = videoPath, ir_segments = segments,
                                            ir_moments = moments, ir_duration = duration,
                                            ir_source = source \<rparr>)))))))"

definition ingestUpload ::
  "ingest_env \<Rightarrow> string \<Rightarrow> path \<Rightarrow> source_kind \<Rightarrow> job_store \<Rightarrow> job_store" where
  "ingestUpload env jobId videoPath source jobs =
     (let jobs1 = jobs(jobId \<mapsto>
            \<lparr> ij_id = Some jobId, ij_status = Some Processing, ij_progress = Some 0,
              ij_currentStep = Some ''Processing file'', ij_result = None, ij_error = None \<rparr>)
      in case processUploadedFile env jobId videoPath source jobs1 of
           (Inl e, jobs2) \<Rightarrow> jobs2(jobId \<mapsto> failed_job jobId e)
         | (Inr u, jobs2) \<Rightarrow> jobs2)"

text \<open>
  The stages of the YouTube ingestion named by their order, and the stage that throws
  first, if any: the download follows the transcript fetch in both branches; the audio
  extraction, the transcription and the removal of the audio file run only after a failed
  fetch.
\<close>

definition youtube_segments ::
  "ingest_env \<Rightarrow> string \<Rightarrow> string \<Rightarrow> string \<Rightarrow> path \<Rightarrow> string + transcript_segment list" where
  "youtube_segments env jobId url videoId videoPath =
     (case getYouTubeTranscript env videoId of
        Inr segments \<Rightarrow>
          (case downloadYouTubeVideo env url videoPath of
             Inl e \<Rightarrow> Inl e
           | Inr u \<Rightarrow> Inr segments)
      | Inl e0 \<Rightarrow>
          (case downloadYouTubeVideo env url videoPath of
             Inl e \<Rightarrow> Inl e
           | Inr u \<Rightarrow>
               (case extractAudioFromVideo env videoPath (path_join (TEMP_DIR env) (jobId @ ''.wav'')) of
                  Inl e \<Rightarrow> Inl e
                | Inr u \<Rightarrow>
                    (case transcribeVideo env (path_join (TEMP_DIR env) (jobId @ ''.wav'')) of
                       Inl e \<Rightarrow> Inl e
                     | Inr segments \<Rightarrow>
                         (case unlinkAudio env (path_join (TEMP_DIR env) (jobId @ ''.wav'')) of
                            Inl e \<Rightarrow> Inl e
                          | Inr u \<Rightarrow> Inr segments)))))"

text \<open>
  The same for an uploaded file: the audio conversion (of an audio file) or extraction
  (of a video), the transcription and the removal of the audio file.
\<close>

definition upload_segments ::
  "ingest_env \<Rightarrow> string \<Rightarrow> path \<Rightarrow> source_kind \<Rightarrow> string + transcript_segment list" where
  "upload_segments env jobId videoPath source =
     (case (if source = Audio
            then convertAudio env videoPath (path_join (TEMP_DIR env) (jobId @ ''.wav''))
            else extractAudioFromVideo env videoPath (path_join (TEMP_DIR env) (jobId @ ''.wav''))) of
        Inl e \<Rightarrow> Inl e
      | Inr u \<Rightarrow>
          (case transcribeVideo env (path_join (TEMP_DIR env) (jobId @ ''.wav'')) of
             Inl e \<Rightarrow> Inl e
           | Inr segments \<Rightarrow>
               (case unlinkAudio env (path_join (TEMP_DIR env) (jobId @ ''.wav'')) of
                  Inl e \<Rightarrow> Inl e
                | Inr u \<Rightarrow> Inr segments)))"

section \<open>Concrete inputs\<close>

text \<open>The inputs at which the theorems below are instantiated and the code is run.\<close>

definition uuid0 :: "nat \<Rightarrow> string" where
  "uuid0 k = ''id'' @ decimal k"

definition seg :: "string \<Rightarrow> real \<Rightarrow> real \<Rightarrow> transcript_segment" where
  "seg t s e = \<lparr> seg_text = t, seg_start = s, seg_end = e, confidence = None \<rparr>"

text \<open>Three segments from 0 s to 20 s; every window of two or more of them scores above 0.5.\<close>

definition segs3 :: "transcript_segment list" where
  "segs3 = [seg ''a??'' 0 5, seg ''b?'' 5 10, seg ''c?!'' 10 20]"

text \<open>A transcript of one segment of 20 s, whose text scores 1.\<close>

definition segs1 :: "transcript_segment list" where
  "segs1 = [seg ''a?? b? c?!'' 0 20]"

text \<open>
  Two segments without extent, with the times \<open>transcribeVideo\<close> gives the segment of a
  reply without segments.
\<close>

definition segs00 :: "transcript_segment list" where
  "segs00 = [seg ''a??'' 0 0, seg ''b? c?!'' 0 0]"

text \<open>
  An engine that leaves a list with a score \<open>NaN\<close> in the order it was given.
\<close>

definition engine_keep :: sort_engine where
  "engine_keep ms = ms"

text \<open>A ranking service that is down, and one that gives every one of three clips a 7.\<close>

definition service_down :: ranking_service where
  "service_down moments context = RequestFailed ''connect ECONNREFUSED''"

definition service_sevens :: ranking_service where
  "service_sevens moments context =
     Clips [\<lparr> clipNumber = 1, viralScore = Number 7, rk_reason = ''good'' \<rparr>,
            \<lparr> clipNumber = 2, viralScore = Number 7, rk_reason = '''' \<rparr>,
            \<lparr> clipNumber = 3, viralScore = Number 7, rk_reason = ''fine'' \<rparr>]"

text \<open>
  A ranking service whose reply parses and has no score: the content
  \<open>{"clips": [{"clipNumber": 2, "reason": "strong hook"}]}\<close>.
\<close>

definition service_no_score :: ranking_service where
  "service_no_score moments context =
     Clips [\<lparr> clipNumber = 2, viralScore = NaN, rk_reason = ''strong hook'' \<rparr>]"

text \<open>A ranking service that addresses the second clip only.\<close>

definition service_second :: ranking_service where
  "service_second moments context =
     Clips [\<lparr> clipNumber = 2, viralScore = Number 9, rk_reason = ''hook'' \<rparr>]"

definition moment_of :: "string \<Rightarrow> real \<Rightarrow> real \<Rightarrow> viral_moment" where
  "moment_of i s e =
     \<lparr> m_id = i, m_start = s, m_end = e, m_score = Number 0.8, m_reason = ''Engaging question'',
       m_text = ''why?'', m_emotions = [''curiosity''], m_keywords = [] \<rparr>"

definition moments3 :: "viral_moment list" where
  "moments3 = [moment_of ''m0'' 0 10, moment_of ''m1'' 5 20, moment_of ''m2'' 10 20]"

text \<open>
  A media tool whose runs all succeed, one whose zoom fails, one whose crop fails for
  the clips that start at 5 s, and one whose crop always fails.
\<close>

definition env_ok :: pipeline_env where
  "env_ok =
     \<lparr> ffmpeg_crop = (\<lambda>fs src dst s d f. Inr ''base-video''),
       ffmpeg_subtitles = (\<lambda>fs src srt dst. Inr ''captioned-video''),
       ffmpeg_zoompan = (\<lambda>fs src dst x. Inr ''zoomed-video''),
       ffmpeg_thumbnail = (\<lambda>fs src dst t. Inr ''thumbnail''),
       uuidv4 = uuid0,
       math_random = (\<lambda>k. 0.7),
       CLIPS_DIR = ''/app/clips'' \<rparr>"

definition env_zoom_fails :: pipeline_env where
  "env_zoom_fails = env_ok\<lparr> ffmpeg_zoompan := (\<lambda>fs src dst x. Inl ''zoompan: filter failed'') \<rparr>"

definition env_crop_fails_at5 :: pipeline_env where
  "env_crop_fails_at5 =
     env_ok\<lparr> ffmpeg_crop := (\<lambda>fs src dst s d f.
                if s = 5 then Inl ''crop: invalid data'' else Inr ''base-video'') \<rparr>"

definition env_crop_fails :: pipeline_env where
  "env_crop_fails = env_ok\<lparr> ffmpeg_crop := (\<lambda>fs src dst s d f. Inl ''crop: invalid data'') \<rparr>"

definition world0 :: world where
  "world0 =
     \<lparr> files = [''/app/uploads/v.mp4'' \<mapsto> ''source-video''],
       clipJobs = Map.empty, uuidCount = 0, randomCount = 0 \<rparr>"

text \<open>A request configuration that switches the captions off and leaves the rest out.\<close>

definition config_no_captions :: js_value where
  "config_no_captions = JObj [(''addCaptions'', JBool False)]"

text \<open>The collaborators of an ingestion whose transcript fetch fails, then with a failing
  download and with a failing duration probe.\<close>

definition ingest_ok :: ingest_env where
  "ingest_ok =
     \<lparr> getYouTubeTranscript = (\<lambda>v. Inl ''Failed to fetch YouTube transcript''),
       downloadYouTubeVideo = (\<lambda>u p. Inr ()),
       extractAudioFromVideo = (\<lambda>p q. Inr ()),
       convertAudio = (\<lambda>p q. Inr ()),
       transcribeVideo = (\<lambda>p. Inr segs3),
       detectMoments = (\<lambda>segments. Inr (detectViralMoments uuid0 engine_keep service_down segments 10 60)),
       getVideoDuration = (\<lambda>p. Inr 20),
       unlinkAudio = (\<lambda>p. Inr ()),
       TEMP_DIR = ''/app/temp'' \<rparr>"

definition ingest_download_fails :: ingest_env where
  "ingest_download_fails = ingest_ok\<lparr> downloadYouTubeVideo := (\<lambda>u p. Inl ''Status code: 410'') \<rparr>"

definition ingest_probe_fails :: ingest_env where
  "ingest_probe_fails = ingest_ok\<lparr> getVideoDuration := (\<lambda>p. Inl ''ffprobe: not found'') \<rparr>"

definition ingest_transcribe_fails :: ingest_env where
  "ingest_transcribe_fails =
     ingest_ok\<lparr> transcribeVideo := (\<lambda>p. Inl ''Failed to transcribe: 401'') \<rparr>"

text \<open>
  A moment from 5 s to 20 s and a transcript around it: a segment across its start, a
  segment with exactly its bounds, a segment inside and a segment across its end.
\<close>

definition moment_5_20 :: viral_moment where
  "moment_5_20 = moment_of ''m'' 5 20"

definition segs_around :: "transcript_segment list" where
  "segs_around = [seg ''before'' 0 6, seg '' exact '' 5 20, seg ''inside'' 6 10.5, seg ''after'' 19 21]"

text \<open>
  A media tool whose output names its inputs, so that the final video shows which stages
  ran on it.
\<close>

definition env_trace :: pipeline_env where
  "env_trace =
     \<lparr> ffmpeg_crop = (\<lambda>fs src dst s d f. Inr (''crop['' @ f @ '']'')),
       ffmpeg_subtitles = (\<lambda>fs src srt dst.
          Inr (''subtitles['' @ the (fs src) @ '']['' @ the (fs srt) @ '']'')),
       ffmpeg_zoompan = (\<lambda>fs src dst x. Inr (''zoompan['' @ the (fs src) @ '']'')),
       ffmpeg_thumbnail = (\<lambda>fs src dst t. Inr (''thumbnail['' @ the (fs src) @ '']'')),
       uuidv4 = uuid0,
       math_random = (\<lambda>k. 0.7),
       CLIPS_DIR = ''/app/clips'' \<rparr>"

text \<open>The configuration with every stage switched on and the vertical format.\<close>

definition config_all_on :: js_value where
  "config_all_on =
     JObj [(''format'', JStr ''9:16''), (''addCaptions'', JBool True),
           (''addEmojis'', JBool True), (''addZoomPan'', JBool True)]"

definition segs_why :: "transcript_segment list" where
  "segs_why = [seg ''why?'' 0 10]"

section \<open>Properties of the detector\<close>

subsection \<open>Auxiliary facts\<close>

lemma m_score_window_moment:
  "m_score (window_moment uuid segs i j k) = Number (window_score segs (i, j))"
  by (simp add: window_moment_def window_score_def Let_def)

lemma emit_append: "emit uuid segs (ws @ vs) ms = emit uuid segs vs (emit uuid segs ws ms)"
  by (induction ws arbitrary: ms) auto

lemma emit_enumerate:
  "emit uuid segs ws ms =
     ms @ map (\<lambda>(k, w). window_moment uuid segs (fst w) (snd w) k) (enumerate (length ms) ws)"
  by (induction ws arbitrary: ms) auto

lemma inner_loop_emit:
  assumes mono: "sorted (map seg_end segs)"
  shows "inner_loop uuid segs minD maxD i j ms =
           emit uuid segs (filter (qualifies segs minD maxD) (map (Pair i) [j ..< length segs])) ms"
proof (induction "length segs - j" arbitrary: j ms)
  case 0
  then have "\<not> j < length segs" by simp
  then show ?case by (subst inner_loop.simps) simp
next
  case (Suc d)
  then have lt: "j < length segs" and d: "d = length segs - (j + 1)" by simp_all
  have upt: "[j ..< length segs] = j # [j + 1 ..< length segs]"
    using lt by (simp add: upt_conv_Cons)
  let ?dur = "seg_end (segs ! j) - seg_start (segs ! i)"
  have dur: "window_duration segs (i, j) = ?dur" by (simp add: window_duration_def)
  show ?case
  proof (cases "?dur < minD")
    case True
    then have nq: "\<not> qualifies segs minD maxD (i, j)" by (simp add: qualifies_def dur)
    show ?thesis
      using True Suc.hyps(1)[OF d] lt nq by (subst inner_loop.simps) (simp add: upt Let_def)
  next
    case False
    note ge = this
    show ?thesis
    proof (cases "?dur > maxD")
      case True
      have "\<not> qualifies segs minD maxD (i, j')" if "j' \<in> set [j ..< length segs]" for j'
      proof -
        from that have "j \<le> j'" "j' < length segs" by simp_all
        with mono have "seg_end (segs ! j) \<le> seg_end (segs ! j')"
          by (simp add: sorted_iff_nth_mono)
        with True show ?thesis by (simp add: qualifies_def window_duration_def)
      qed
      then have "filter (qualifies segs minD maxD) (map (Pair i) [j ..< length segs]) = []"
        by (auto simp: filter_empty_conv)
      then show ?thesis
        using True ge lt by (subst inner_loop.simps) (simp add: Let_def)
    next
      case False
      then have q: "qualifies segs minD maxD (i, j) \<longleftrightarrow> window_score segs (i, j) > 0.5"
        using ge by (simp add: qualifies_def dur)
      show ?thesis
        using False ge lt q Suc.hyps(1)[OF d]
        by (subst inner_loop.simps) (simp add: upt Let_def window_score_def)
    qed
  qed
qed

lemma outer_loop_emit:
  assumes mono: "sorted (map seg_end segs)"
  shows "outer_loop uuid segs minD maxD i ms =
           emit uuid segs (filter (qualifies segs minD maxD)
             (concat (map (\<lambda>i. map (Pair i) [i + 1 ..< length segs]) [i ..< length segs]))) ms"
proof (induction "length segs - i" arbitrary: i ms)
  case 0
  then have "\<not> i < length segs" by simp
  then show ?case by (subst outer_loop.simps) simp
next
  case (Suc d)
  then have lt: "i < length segs" and d: "d = length segs - (i + 1)" by simp_all
  have upt: "[i ..< length segs] = i # [i + 1 ..< length segs]"
    using lt by (simp add: upt_conv_Cons)
  show ?case
    using lt Suc.hyps(1)[OF d]
    by (subst outer_loop.simps) (simp add: upt inner_loop_emit[OF mono] emit_append)
qed

lemma scan_emit:
  assumes "sorted (map seg_end segs)"
  shows "scanMoments uuid segs minD maxD =
           emit uuid segs (filter (qualifies segs minD maxD) (window_pairs (length segs))) []"
  by (simp add: scanMoments_def window_pairs_def outer_loop_emit[OF assms])


lemma set_window_pairs: "set (window_pairs n) = {(i, j). i < j \<and> j < n}"
proof -
  have "(a, b) \<in> set (window_pairs n) \<longleftrightarrow> a < b \<and> b < n" for a b
    by (auto simp: window_pairs_def image_iff)
  then show ?thesis by auto
qed

lemma window_moment_times:
  "m_end (window_moment uuid segs i j k) - m_start (window_moment uuid segs i j k)
     = window_duration segs (i, j)"
  by (simp add: window_moment_def window_duration_def Let_def)

lemma refine_length: "length (refineWithAI service moments ft) = length moments"
  by (simp add: refineWithAI_def split: ranking_reply.splits)

lemma refine_nth:
  assumes "service moments (take 2000 ft) = Clips rankings" "index < length moments"
  shows "refineWithAI service moments ft ! index = apply_ranking rankings index (moments ! index)"
  using assms by (simp add: refineWithAI_def nth_enumerate_eq)

lemma number_of_eq: "is_number s \<Longrightarrow> number_of s = x \<longleftrightarrow> s = Number x"
  by (cases s) auto

lemma js_ge_numbers: "is_number s \<Longrightarrow> is_number t \<Longrightarrow> js_ge s t \<longleftrightarrow> number_of t \<le> number_of s"
  by (cases s; cases t) auto

lemma sort_numeric:
  assumes "list_all (\<lambda>m. is_number (m_score m)) ms"
  shows "sort_by_score_desc engine ms = sort_key (\<lambda>m. - number_of (m_score m)) ms"
  using assms by (simp add: sort_by_score_desc_def)

lemma numeric_sort:
  assumes "list_all (\<lambda>m. is_number (m_score m)) ms"
  shows "list_all (\<lambda>m. is_number (m_score m)) (sort_by_score_desc engine ms)"
  using assms by (simp add: sort_numeric list_all_iff)

lemma sorted_desc:
  assumes num: "list_all (\<lambda>m. is_number (m_score m)) ms"
  shows "sorted_by_score_desc (sort_by_score_desc engine ms)"
proof -
  let ?out = "sort_key (\<lambda>m. - number_of (m_score m)) ms"
  have "sorted (map (\<lambda>m. - number_of (m_score m)) ?out)"
    by simp
  then have "sorted_wrt (\<lambda>a b. number_of (m_score b) \<le> number_of (m_score a)) ?out"
    by (simp add: sorted_map)
  then have "sorted_wrt (\<lambda>a b. js_ge (m_score a) (m_score b)) ?out"
  proof (rule sorted_wrt_mono_rel[rotated])
    fix a b
    assume "a \<in> set ?out" "b \<in> set ?out" "number_of (m_score b) \<le> number_of (m_score a)"
    with num show "js_ge (m_score a) (m_score b)"
      by (simp add: list_all_iff js_ge_numbers)
  qed
  then show ?thesis
    by (simp add: sorted_by_score_desc_def sort_numeric[OF num])
qed

lemma sort_desc_stable:
  assumes num: "list_all (\<lambda>m. is_number (m_score m)) ms"
  shows "filter (\<lambda>m. m_score m = k) (sort_by_score_desc engine ms)
           = filter (\<lambda>m. m_score m = k) ms"
proof -
  let ?out = "sort_key (\<lambda>m. - number_of (m_score m)) ms"
  have same: "m_score m = k \<longleftrightarrow> is_number k \<and> - number_of (m_score m) = - number_of k"
    if "m \<in> set ms" for m
    using that num by (cases k) (auto simp: list_all_iff number_of_eq)
  have "filter (\<lambda>m. m_score m = k) ?out
          = filter (\<lambda>m. is_number k \<and> - number_of (m_score m) = - number_of k) ?out"
    by (rule filter_cong) (simp_all add: same)
  also have "\<dots> = filter (\<lambda>m. is_number k \<and> - number_of (m_score m) = - number_of k) ms"
    using sort_key_stable[of "\<lambda>m. - number_of (m_score m)" "- number_of k" ms]
    by (cases "is_number k") simp_all
  also have "\<dots> = filter (\<lambda>m. m_score m = k) ms"
    by (rule filter_cong) (simp_all add: same)
  finally show ?thesis
    by (simp add: sort_numeric[OF num])
qed

lemma sort_desc_take_id:
  assumes num: "list_all (\<lambda>m. is_number (m_score m)) ms"
  shows "sort_by_score_desc engine (take n (sort_by_score_desc engine ms))
           = take n (sort_by_score_desc engine ms)"
proof -
  let ?out = "sort_key (\<lambda>m. - number_of (m_score m)) ms"
  have "list_all (\<lambda>m. is_number (m_score m)) (take n ?out)"
    using num by (auto simp: list_all_iff dest: in_set_takeD)
  then have "sort_by_score_desc engine (take n ?out)
               = sort_key (\<lambda>m. - number_of (m_score m)) (take n ?out)"
    by (rule sort_numeric)
  moreover have "sorted (map (\<lambda>m. - number_of (m_score m)) (take n ?out))"
    by (simp flip: take_map)
  then have "sort_key (\<lambda>m. - number_of (m_score m)) (take n ?out) = take n ?out"
    by (rule sort_key_id_if_sorted)
  ultimately show ?thesis
    by (simp add: sort_numeric[OF num])
qed

text \<open>The scores of the heuristic scan are numbers.\<close>

lemma inner_loop_numeric:
  assumes "list_all (\<lambda>m. is_number (m_score m)) ms"
  shows "list_all (\<lambda>m. is_number (m_score m)) (inner_loop uuid segs minD maxD i j ms)"
  using assms
proof (induction "length segs - j" arbitrary: j ms)
  case 0
  then show ?case by (subst inner_loop.simps) simp
next
  case (Suc d)
  then have d: "d = length segs - (j + 1)" by simp
  have step: "list_all (\<lambda>m. is_number (m_score m)) (inner_loop uuid segs minD maxD i (j + 1) ms')"
    if "list_all (\<lambda>m. is_number (m_score m)) ms'" for ms'
    using Suc.hyps(1)[OF d that] .
  have new: "list_all (\<lambda>m. is_number (m_score m)) (ms @ [window_moment uuid segs i j (length ms)])"
    using Suc.prems by (simp add: m_score_window_moment)
  show ?case
    using Suc.prems step[OF Suc.prems] step[OF new]
    by (subst inner_loop.simps) (simp add: Let_def)
qed

lemma outer_loop_numeric:
  assumes "list_all (\<lambda>m. is_number (m_score m)) ms"
  shows "list_all (\<lambda>m. is_number (m_score m)) (outer_loop uuid segs minD maxD i ms)"
  using assms
proof (induction "length segs - i" arbitrary: i ms)
  case 0
  then show ?case by (subst outer_loop.simps) simp
next
  case (Suc d)
  then have d: "d = length segs - (i + 1)" by simp
  from Suc.hyps(1)[OF d inner_loop_numeric[OF Suc.prems]] Suc.prems show ?case
    by (subst outer_loop.simps) simp
qed

lemma scan_numeric:
  "list_all (\<lambda>m. is_number (m_score m)) (scanMoments uuid segs minD maxD)"
  by (simp add: scanMoments_def outer_loop_numeric)

lemma find_distinct_key:
  assumes "distinct (map f xs)" "r \<in> set xs" "f r = k"
  shows "find (\<lambda>x. f x = k) xs = Some r"
  using assms by (induction xs) (auto simp: image_iff)

text \<open>
  A transcript ordered by start without overlaps, each segment ending no earlier than it
  starts, has end times that do not decrease.
\<close>

lemma non_overlapping_sorted_ends:
  assumes "\<forall>k. Suc k < length segments \<longrightarrow>
             seg_end (segments ! k) \<le> seg_start (segments ! Suc k)"
    and "\<forall>k < length segments. seg_start (segments ! k) \<le> seg_end (segments ! k)"
  shows "sorted (map seg_end segments)"
proof -
  have "seg_end (segments ! k) \<le> seg_end (segments ! Suc k)" if "Suc k < length segments" for k
  proof -
    from that assms(1) have "seg_end (segments ! k) \<le> seg_start (segments ! Suc k)" by blast
    also from that assms(2) have "\<dots> \<le> seg_end (segments ! Suc k)" by blast
    finally show ?thesis .
  qed
  then show ?thesis
    by (simp add: sorted_iff_nth_Suc)
qed

subsection \<open>The heuristic scan\<close>

text \<open>
  C1 (amended). For a segment sequence whose end times do not decrease (as in a
  transcript ordered by start without overlaps) and every pair of duration bounds, the
  scan emits, in the order of the loops, one candidate for every window \<open>[i, j]\<close> of at
  least two segments (\<open>i < j\<close>) whose time span lies in \<open>[minDuration, maxDuration]\<close>
  and whose heuristic score exceeds 0.5, and no others. The duration of every emitted
  candidate lies within the bounds, and \<open>start < end\<close> whenever \<open>minDuration\<close> is
  positive.
\<close>

theorem scan_emits_qualifying_windows:
  assumes "sorted (map seg_end segments)"
  shows "scanMoments uuid segments minDuration maxDuration =
           map (\<lambda>(k, w). window_moment uuid segments (fst w) (snd w) k)
             (enumerate 0 (filter (qualifies segments minDuration maxDuration)
                (window_pairs (length segments))))
         \<and> (\<forall>m \<in> set (scanMoments uuid segments minDuration maxDuration).
              minDuration \<le> m_end m - m_start m \<and> m_end m - m_start m \<le> maxDuration
              \<and> (0 < minDuration \<longrightarrow> m_start m < m_end m))"
proof -
  let ?ws = "filter (qualifies segments minDuration maxDuration) (window_pairs (length segments))"
  have eq: "scanMoments uuid segments minDuration maxDuration =
              map (\<lambda>(k, w). window_moment uuid segments (fst w) (snd w) k) (enumerate 0 ?ws)"
    by (simp add: scan_emit[OF assms] emit_enumerate)
  have "minDuration \<le> m_end m - m_start m \<and> m_end m - m_start m \<le> maxDuration
          \<and> (0 < minDuration \<longrightarrow> m_start m < m_end m)"
    if "m \<in> set (scanMoments uuid segments minDuration maxDuration)" for m
  proof -
    from that eq obtain k w where kw: "(k, w) \<in> set (enumerate 0 ?ws)"
      and m: "m = window_moment uuid segments (fst w) (snd w) k"
      by auto
    from kw have "w \<in> snd ` set (enumerate 0 ?ws)" by force
    then have "w \<in> set ?ws" by (simp flip: set_map)
    then have "qualifies segments minDuration maxDuration (fst w, snd w)" by simp
    moreover have "m_end m - m_start m = window_duration segments (fst w, snd w)"
      by (simp add: m window_moment_times)
    ultimately show ?thesis
      by (auto simp: qualifies_def)
  qed
  with eq show ?thesis by blast
qed

theorem scan_emits_qualifying_windows_witness:
  "sorted (map seg_end segs3)
   \<and> scanMoments uuid0 segs3 10 60 =
       [window_moment uuid0 segs3 0 1 0, window_moment uuid0 segs3 0 2 1,
        window_moment uuid0 segs3 1 2 2]
   \<and> set (scanMoments uuid0 segs3 10 60) \<noteq> {}"
proof -
  have h: "sorted (map seg_end segs3)"
    by code_simp
  have f: "filter (qualifies segs3 10 60) (window_pairs (length segs3)) = [(0, 1), (0, 2), (1, 2)]"
    by code_simp
  from scan_emits_qualifying_windows[OF h, of uuid0 10 60]
  have "scanMoments uuid0 segs3 10 60 =
          [window_moment uuid0 segs3 0 1 0, window_moment uuid0 segs3 0 2 1,
           window_moment uuid0 segs3 1 2 2]"
    by (simp add: f enumerate_simps numeral_2_eq_2)
  with h show ?thesis by simp
qed

text \<open>
  The claim as written fails twice. A window of a single segment is never examined: the
  one segment of \<open>segs1\<close> spans 20 s and scores above 0.5, and the scan emits nothing.
  With \<open>minDuration = 0\<close> the two segments of \<open>segs00\<close> give one candidate whose start
  and end are equal.
\<close>

theorem scan_single_segment_counterexample:
  "sorted (map seg_end segs1) \<and> segs1 \<noteq> []
   \<and> qualifies segs1 10 60 (0, 0)
   \<and> scanMoments uuid0 segs1 10 60 = []
   \<and> sorted (map seg_end segs00) \<and> sorted (map seg_start segs00)
   \<and> length (scanMoments uuid0 segs00 0 60) = 1
   \<and> m_start (hd (scanMoments uuid0 segs00 0 60)) = m_end (hd (scanMoments uuid0 segs00 0 60))"
  by code_simp

subsection \<open>Scores\<close>

text \<open>
  C4. The heuristic score of every window text and segment list lies in \<open>[0, 1]\<close>. When
  the ranking service answers with rankings, the moment at a position the service
  addresses (the first ranking with that 1-based \<open>clipNumber\<close>, which is the only one
  when the clip numbers are distinct) gets the reported score divided by 10, which for a
  reported number \<open>x\<close> is exactly the number \<open>x / 10\<close>; a moment the service does not
  address stays as it was, and identifier, start, end, text, emotions and keywords of
  every moment are unchanged.
\<close>

theorem score_clamped_and_refinement_exact:
  "0 \<le> calculateViralScore text segments \<and> calculateViralScore text segments \<le> 1
   \<and> (service moments (take 2000 transcript) = Clips rankings \<and> index < length moments \<longrightarrow>
        (\<forall>r. find (\<lambda>r. clipNumber r = real (index + 1)) rankings = Some r \<longrightarrow>
           m_score (refineWithAI service moments transcript ! index) = js_divide (viralScore r) 10
           \<and> (\<forall>x. viralScore r = Number x \<longrightarrow>
                 m_score (refineWithAI service moments transcript ! index) = Number (x / 10)))
        \<and> (distinct (map clipNumber rankings) \<longrightarrow>
             (\<forall>r \<in> set rankings. clipNumber r = real (index + 1) \<longrightarrow>
                m_score (refineWithAI service moments transcript ! index)
                  = js_divide (viralScore r) 10
                \<and> (\<forall>x. viralScore r = Number x \<longrightarrow>
                      m_score (refineWithAI service moments transcript ! index) = Number (x / 10))))
        \<and> (find (\<lambda>r. clipNumber r = real (index + 1)) rankings = None \<longrightarrow>
             refineWithAI service moments transcript ! index = moments ! index)
        \<and> m_id (refineWithAI service moments transcript ! index) = m_id (moments ! index)
        \<and> m_start (refineWithAI service moments transcript ! index) = m_start (moments ! index)
        \<and> m_end (refineWithAI service moments transcript ! index) = m_end (moments ! index)
        \<and> m_text (refineWithAI service moments transcript ! index) = m_text (moments ! index)
        \<and> m_emotions (refineWithAI service moments transcript ! index)
            = m_emotions (moments ! index)
        \<and> m_keywords (refineWithAI service moments transcript ! index)
            = m_keywords (moments ! index))"
proof -
  have clamp: "0 \<le> calculateViralScore text segments \<and> calculateViralScore text segments \<le> 1"
    by (simp add: calculateViralScore_def Let_def)
  have refine: ?thesis
    if reply: "service moments (take 2000 transcript) = Clips rankings"
      and index: "index < length moments"
  proof -
    have nth: "refineWithAI service moments transcript ! index
                 = apply_ranking rankings index (moments ! index)"
      using reply index by (rule refine_nth)
    have first: "m_score (apply_ranking rankings index (moments ! index))
                   = js_divide (viralScore r) 10
                 \<and> (\<forall>x. viralScore r = Number x \<longrightarrow>
                       m_score (apply_ranking rankings index (moments ! index)) = Number (x / 10))"
      if "find (\<lambda>r. clipNumber r = real (index + 1)) rankings = Some r" for r
      using that by (simp add: apply_ranking_def)
    have only: "m_score (apply_ranking rankings index (moments ! index))
                   = js_divide (viralScore r) 10
                 \<and> (\<forall>x. viralScore r = Number x \<longrightarrow>
                       m_score (apply_ranking rankings index (moments ! index)) = Number (x / 10))"
      if "distinct (map clipNumber rankings)" "r \<in> set rankings"
        "clipNumber r = real (index + 1)" for r
      using that by (intro first find_distinct_key)
    have none: "apply_ranking rankings index (moments ! index) = moments ! index"
      if "find (\<lambda>r. clipNumber r = real (index + 1)) rankings = None"
      using that by (simp add: apply_ranking_def)
    have frame: "m_id (apply_ranking rankings index m) = m_id m"
      "m_start (apply_ranking rankings index m) = m_start m"
      "m_end (apply_ranking rankings index m) = m_end m"
      "m_text (apply_ranking rankings index m) = m_text m"
      "m_emotions (apply_ranking rankings index m) = m_emotions m"
      "m_keywords (apply_ranking rankings index m) = m_keywords m" for m
      by (simp_all add: apply_ranking_def split: option.splits)
    show ?thesis
      unfolding nth using clamp first only none frame by blast
  qed
  with clamp show ?thesis by blast
qed

theorem score_clamped_and_refinement_exact_witness:
  "service_second moments3 (take 2000 ''why?'') =
     Clips [\<lparr> clipNumber = 2, viralScore = Number 9, rk_reason = ''hook'' \<rparr>]
   \<and> (1::nat) < length moments3
   \<and> m_score (refineWithAI service_second moments3 ''why?'' ! 1) = Number (9 / 10)
   \<and> m_start (refineWithAI service_second moments3 ''why?'' ! 1) = 5
   \<and> refineWithAI service_second moments3 ''why?'' ! 0 = moments3 ! 0
   \<and> 0 \<le> calculateViralScore ''why?'' segs3"
proof -
  let ?r = "\<lparr> clipNumber = 2, viralScore = Number 9, rk_reason = ''hook'' \<rparr>"
  let ?rs = "[?r]"
  have reply: "service_second moments3 (take 2000 ''why?'') = Clips ?rs"
    by (simp add: service_second_def)
  have len: "(1::nat) < length moments3" "(0::nat) < length moments3"
    by (simp_all add: moments3_def)
  have hit: "find (\<lambda>r. clipNumber r = real (1 + 1)) ?rs = Some ?r"
    by simp
  have miss: "find (\<lambda>r. clipNumber r = real (0 + 1)) ?rs = None"
    by simp
  have st: "m_start (moments3 ! 1) = 5"
    by (simp add: moments3_def moment_of_def)
  note a = score_clamped_and_refinement_exact
         [of "''why?''" segs3 service_second moments3 "''why?''" ?rs 1]
  from a reply len(1) hit
  have "m_score (refineWithAI service_second moments3 ''why?'' ! 1) = Number (9 / 10)"
    by (metis ranking.select_convs(2))
  moreover from a reply len(1) st
  have "m_start (refineWithAI service_second moments3 ''why?'' ! 1) = 5"
    by metis
  moreover from a have "0 \<le> calculateViralScore ''why?'' segs3"
    by blast
  moreover from score_clamped_and_refinement_exact
         [of "''why?''" segs3 service_second moments3 "''why?''" ?rs 0] reply len(2) miss
  have "refineWithAI service_second moments3 ''why?'' ! 0 = moments3 ! 0"
    by blast
  ultimately show ?thesis
    using reply len(1) by blast
qed

subsection \<open>The detector\<close>

lemma refine_ids: "map m_id (refineWithAI service moments ft) = map m_id moments"
proof (cases "service moments (take 2000 ft)")
  case (Clips rankings)
  have "m_id (apply_ranking rankings i m) = m_id m" for i m
    by (simp add: apply_ranking_def split: option.splits)
  then have "map m_id (map (\<lambda>(index, moment). apply_ranking rankings index moment)
               (enumerate 0 moments)) = map (m_id \<circ> snd) (enumerate 0 moments)"
    by (auto simp: case_prod_unfold)
  also have "\<dots> = map m_id moments"
    by (simp flip: map_map)
  finally show ?thesis
    using Clips by (simp add: refineWithAI_def)
qed (simp_all add: refineWithAI_def)

lemma take_sort_ties:
  assumes "list_all (\<lambda>m. is_number (m_score m)) ms"
  shows "prefix (filter (\<lambda>m. m_score m = k) (take n (sort_by_score_desc engine ms)))
                (filter (\<lambda>m. m_score m = k) ms)"
proof -
  have "prefix (filter (\<lambda>m. m_score m = k) (take n (sort_by_score_desc engine ms)))
               (filter (\<lambda>m. m_score m = k) (sort_by_score_desc engine ms))"
    by (intro filter_mono_prefix take_is_prefix)
  then show ?thesis by (simp add: sort_desc_stable[OF assms])
qed

lemma take_sorted_desc:
  assumes "list_all (\<lambda>m. is_number (m_score m)) ms"
  shows "sorted_by_score_desc (take n (sort_by_score_desc engine ms))"
  using sorted_desc[OF assms, of engine]
  unfolding sorted_by_score_desc_def by (rule sorted_wrt_take)

lemma dropped_below_taken:
  assumes num: "list_all (\<lambda>m. is_number (m_score m)) ms"
    and "c \<in> set (drop n (sort_by_score_desc engine ms))"
    and "t \<in> set (take n (sort_by_score_desc engine ms))"
  shows "js_ge (m_score t) (m_score c)"
proof -
  have "sorted_wrt (\<lambda>a b. js_ge (m_score a) (m_score b))
          (take n (sort_by_score_desc engine ms) @ drop n (sort_by_score_desc engine ms))"
    using sorted_desc[OF num, of engine] by (simp add: sorted_by_score_desc_def)
  with assms(2,3) show ?thesis
    unfolding sorted_wrt_append by blast
qed

text \<open>A list of two or more moments with a score \<open>NaN\<close> is in no order sorted by score.\<close>

lemma nan_not_sorted:
  assumes "i < length ms" "m_score (ms ! i) = NaN" "2 \<le> length ms"
  shows "\<not> sorted_by_score_desc ms"
proof
  assume "sorted_by_score_desc ms"
  then have ordered: "js_ge (m_score (ms ! a)) (m_score (ms ! b))" if "a < b" "b < length ms" for a b
    using that by (simp add: sorted_by_score_desc_def sorted_wrt_iff_nth_less)
  show False
  proof (cases "i = 0")
    case True
    with assms ordered[of 0 1] show False by simp
  next
    case False
    with assms ordered[of 0 i] show False
      by (cases "m_score (ms ! 0)") simp_all
  qed
qed

text \<open>
  When every score the service reports is a number, or the service fails, the refined
  scores are numbers.
\<close>

lemma refined_numeric:
  assumes num: "list_all (\<lambda>m. is_number (m_score m)) moments"
    and reply: "\<And>rankings. service moments (take 2000 ft) = Clips rankings \<Longrightarrow>
                  list_all (\<lambda>r. is_number (viralScore r)) rankings"
  shows "list_all (\<lambda>m. is_number (m_score m)) (refineWithAI service moments ft)"
proof (cases "service moments (take 2000 ft)")
  case (Clips rankings)
  from reply[OF Clips] have rs: "is_number (viralScore r)" if "r \<in> set rankings" for r
    using that by (simp add: list_all_iff)
  have "is_number (m_score (apply_ranking rankings i m))" if "is_number (m_score m)" for i m
  proof (cases "find (\<lambda>r. clipNumber r = real (i + 1)) rankings")
    case None
    with that show ?thesis by (simp add: apply_ranking_def)
  next
    case (Some r)
    then have "r \<in> set rankings"
      by (auto simp: find_Some_iff)
    from rs[OF this] Some show ?thesis
      by (cases "viralScore r") (simp_all add: apply_ranking_def)
  qed
  with num Clips show ?thesis
    by (auto simp: refineWithAI_def list_all_iff in_set_enumerate_eq)
qed (use num in \<open>simp_all add: refineWithAI_def\<close>)

text \<open>
  C2 (amended). The detector's output has at most 10 moments. Whenever no refined score is
  \<open>NaN\<close> (as when every score the ranking service reports is a number), the output is
  sorted by descending score, and moments of equal final score keep the order they have
  in the refiner's list, which is the order of descending heuristic score with ties of
  the heuristic score in discovery order. The refiner is handed at most 20 candidates,
  the first 20 of the candidates sorted by descending heuristic score: no candidate left
  out scores higher than one handed over.
\<close>

theorem detector_output_bounded_sorted:
  "length (detectViralMoments uuid engine service segments minDuration maxDuration) \<le> 10
   \<and> (list_all (\<lambda>m. is_number (m_score m))
         (refinedMoments uuid engine service segments minDuration maxDuration) \<longrightarrow>
        sorted_by_score_desc
          (detectViralMoments uuid engine service segments minDuration maxDuration)
        \<and> (\<forall>k. prefix
              (filter (\<lambda>m. m_score m = k)
                 (detectViralMoments uuid engine service segments minDuration maxDuration))
              (filter (\<lambda>m. m_score m = k)
                 (refinedMoments uuid engine service segments minDuration maxDuration))))
   \<and> map m_id (refinedMoments uuid engine service segments minDuration maxDuration)
       = map m_id (topMoments uuid engine segments minDuration maxDuration)
   \<and> length (topMoments uuid engine segments minDuration maxDuration) \<le> 20
   \<and> sorted_by_score_desc (topMoments uuid engine segments minDuration maxDuration)
   \<and> (\<forall>k. prefix
         (filter (\<lambda>m. m_score m = k) (topMoments uuid engine segments minDuration maxDuration))
         (filter (\<lambda>m. m_score m = k) (scanMoments uuid segments minDuration maxDuration)))
   \<and> (\<forall>c \<in> set (drop 20 (sort_by_score_desc engine
                       (scanMoments uuid segments minDuration maxDuration))).
       \<forall>t \<in> set (topMoments uuid engine segments minDuration maxDuration).
         js_ge (m_score t) (m_score c))"
proof -
  note scan = scan_numeric[of uuid segments minDuration maxDuration]
  have "length (detectViralMoments uuid engine service segments minDuration maxDuration) \<le> 10"
    by (simp add: detectViralMoments_def)
  moreover have "sorted_by_score_desc
          (detectViralMoments uuid engine service segments minDuration maxDuration)"
    if "list_all (\<lambda>m. is_number (m_score m))
          (refinedMoments uuid engine service segments minDuration maxDuration)"
    unfolding detectViralMoments_def using that by (rule take_sorted_desc)
  moreover have "prefix
         (filter (\<lambda>m. m_score m = k)
            (detectViralMoments uuid engine service segments minDuration maxDuration))
         (filter (\<lambda>m. m_score m = k)
            (refinedMoments uuid engine service segments minDuration maxDuration))"
    if "list_all (\<lambda>m. is_number (m_score m))
          (refinedMoments uuid engine service segments minDuration maxDuration)" for k
    unfolding detectViralMoments_def using that by (rule take_sort_ties)
  moreover have "map m_id (refinedMoments uuid engine service segments minDuration maxDuration)
       = map m_id (topMoments uuid engine segments minDuration maxDuration)"
    unfolding refinedMoments_def by (rule refine_ids)
  moreover have "length (topMoments uuid engine segments minDuration maxDuration) \<le> 20"
    by (simp add: topMoments_def)
  moreover have "sorted_by_score_desc (topMoments uuid engine segments minDuration maxDuration)"
    unfolding topMoments_def using scan by (rule take_sorted_desc)
  moreover have "prefix
         (filter (\<lambda>m. m_score m = k) (topMoments uuid engine segments minDuration maxDuration))
         (filter (\<lambda>m. m_score m = k) (scanMoments uuid segments minDuration maxDuration))" for k
    unfolding topMoments_def using scan by (rule take_sort_ties)
  moreover have "\<forall>c \<in> set (drop 20 (sort_by_score_desc engine
                       (scanMoments uuid segments minDuration maxDuration))).
       \<forall>t \<in> set (topMoments uuid engine segments minDuration maxDuration).
         js_ge (m_score t) (m_score c)"
    unfolding topMoments_def using dropped_below_taken[OF scan] by blast
  ultimately show ?thesis by blast
qed

theorem detector_output_bounded_sorted_witness:
  "list_all (\<lambda>m. is_number (m_score m)) (refinedMoments uuid0 engine_keep service_sevens segs3 10 60)
   \<and> map m_id (topMoments uuid0 engine_keep segs3 10 60) = [''id1'', ''id0'', ''id2'']
   \<and> map m_id (refinedMoments uuid0 engine_keep service_sevens segs3 10 60)
       = [''id1'', ''id0'', ''id2'']
   \<and> length (detectViralMoments uuid0 engine_keep service_sevens segs3 10 60) \<le> 10
   \<and> sorted_by_score_desc (detectViralMoments uuid0 engine_keep service_sevens segs3 10 60)
   \<and> prefix (filter (\<lambda>m. m_score m = Number (7 / 10))
               (detectViralMoments uuid0 engine_keep service_sevens segs3 10 60))
        (filter (\<lambda>m. m_score m = Number (7 / 10))
           (refinedMoments uuid0 engine_keep service_sevens segs3 10 60))"
proof -
  have num: "list_all (\<lambda>m. is_number (m_score m))
               (refinedMoments uuid0 engine_keep service_sevens segs3 10 60)"
    by code_simp
  have top: "map m_id (topMoments uuid0 engine_keep segs3 10 60) = [''id1'', ''id0'', ''id2'']"
    by code_simp
  note out = detector_output_bounded_sorted[of uuid0 engine_keep service_sevens segs3 10 60]
  from out top
  have "map m_id (refinedMoments uuid0 engine_keep service_sevens segs3 10 60)
          = [''id1'', ''id0'', ''id2'']"
    by simp
  with out top num show ?thesis by blast
qed

text \<open>
  The claim as written fails in its tie rule. In \<open>segs3\<close> the window of the first two
  segments is discovered before the window of all three; the service gives both the
  score 7, and the output lists the window discovered second before the one discovered
  first, because the first sort had put it there. It also fails in its order when the
  reply leaves a score out: the refined score is \<open>NaN\<close>, and an output with that moment
  among others is not sorted by score.
\<close>

theorem tie_order_counterexample:
  "map m_id (scanMoments uuid0 segs3 10 60) = [''id0'', ''id1'', ''id2'']
   \<and> map m_score (detectViralMoments uuid0 engine_keep service_sevens segs3 10 60)
       = [Number (7 / 10), Number (7 / 10), Number (7 / 10)]
   \<and> map m_id (detectViralMoments uuid0 engine_keep service_sevens segs3 10 60)
       = [''id1'', ''id0'', ''id2'']
   \<and> map m_score (detectViralMoments uuid0 engine_keep service_no_score segs3 10 60)
       = [Number 1, NaN, Number (6 / 10)]
   \<and> \<not> sorted_by_score_desc (detectViralMoments uuid0 engine_keep service_no_score segs3 10 60)"
  by code_simp

subsection \<open>Failure of the ranking service\<close>

text \<open>
  What holds of the claim on refinement failure: when the \<open>try\<close> block throws, the refiner
  returns the list it was given, and the detector's output is that of the detector with
  the heuristic scorer only.
\<close>

lemma refine_throw_returns_input:
  assumes "is_failure (service moments (take 2000 transcript))"
  shows "refineWithAI service moments transcript = moments"
  using assms by (cases "service moments (take 2000 transcript)") (simp_all add: refineWithAI_def)

lemma detector_throw_heuristic_only:
  assumes "is_failure (service (topMoments uuid engine segments minDuration maxDuration)
                         (take 2000 (fullText segments)))"
  shows "detectViralMoments uuid engine service segments minDuration maxDuration
           = detectHeuristicOnly uuid engine segments minDuration maxDuration"
proof -
  have "refinedMoments uuid engine service segments minDuration maxDuration
          = topMoments uuid engine segments minDuration maxDuration"
    unfolding refinedMoments_def using assms by (rule refine_throw_returns_input)
  then show ?thesis
    by (simp add: detectViralMoments_def detectHeuristicOnly_def topMoments_def
          sort_desc_take_id[OF scan_numeric])
qed

text \<open>
  C3 does not hold for the code. A reply that parses and lacks a score is a failure of
  the ranking service that throws nothing: the \<open>catch\<close> is not reached, the moment the
  reply addresses gets the score \<open>NaN\<close> (its reason falls back to the moment's own when
  the reply has none; its score does not), and the detector's output differs from the
  output of the detector with the heuristic scorer only.
\<close>

theorem refinement_applies_reply_without_score:
  "map m_score (topMoments uuid0 engine_keep segs3 10 60)
     = [Number 1, Number (65 / 100), Number (6 / 10)]
   \<and> map m_score (refineWithAI service_no_score (topMoments uuid0 engine_keep segs3 10 60)
                     (fullText segs3))
     = [Number 1, NaN, Number (6 / 10)]
   \<and> map m_score (detectViralMoments uuid0 engine_keep service_no_score segs3 10 60)
     = [Number 1, NaN, Number (6 / 10)]
   \<and> map m_score (detectHeuristicOnly uuid0 engine_keep segs3 10 60)
     = [Number 1, Number (65 / 100), Number (6 / 10)]"
  by code_simp

section \<open>Properties of the caption stage\<close>

text \<open>The text the loop appends for a list of segments, without and with emoji.\<close>

lemma srt_loop_plain:
  "fst (srt_loop random moment False index segs srtContent rc)
     = srtContent @ concat (map (\<lambda>(k, s).
         decimal (k + 1) @ [CHR 0x0A]
         @ formatSRTTime (seg_start s - m_start moment) @ '' --> ''
         @ formatSRTTime (seg_end s - m_start moment) @ [CHR 0x0A]
         @ trim (seg_text s) @ [CHR 0x0A, CHR 0x0A]) (enumerate index segs))"
  by (induction segs arbitrary: index srtContent rc) (simp_all add: Let_def)

lemma srt_loop_texts:
  "\<exists>texts.
     list_all2 (\<lambda>t s. t = trim (seg_text s)
                  \<or> (addEmojis \<and> (\<exists>emoji. emoji \<noteq> [] \<and> t = emoji @ '' '' @ trim (seg_text s))))
       texts segs
     \<and> fst (srt_loop random moment addEmojis index segs srtContent rc)
       = srtContent @ concat (map (\<lambda>(k, s, t).
           decimal (k + 1) @ [CHR 0x0A]
           @ formatSRTTime (seg_start s - m_start moment) @ '' --> ''
           @ formatSRTTime (seg_end s - m_start moment) @ [CHR 0x0A]
           @ t @ [CHR 0x0A, CHR 0x0A]) (enumerate index (zip segs texts)))"
proof (induction segs arbitrary: index srtContent rc)
  case Nil
  show ?case by (intro exI[of _ "[]"]) simp
next
  case (Cons segment rest)
  let ?text0 = "trim (seg_text segment)"
  let ?pick = "if addEmojis then
               (let (emoji, rc') = selectEmoji random rc ?text0 (m_emotions moment)
                in if emoji \<noteq> []
                   then (if random rc' > 0.5 then emoji @ '' '' @ ?text0 else ?text0, rc' + 1)
                   else (?text0, rc'))
             else (?text0, rc)"
  let ?block = "decimal (index + 1) @ [CHR 0x0A]
         @ formatSRTTime (seg_start segment - m_start moment) @ '' --> ''
         @ formatSRTTime (seg_end segment - m_start moment) @ [CHR 0x0A]
         @ fst ?pick @ [CHR 0x0A, CHR 0x0A]"
  have step: "srt_loop random moment addEmojis index (segment # rest) srtContent rc
                = srt_loop random moment addEmojis (index + 1) rest (srtContent @ ?block) (snd ?pick)"
    by (simp add: Let_def split_beta)
  have text1: "fst ?pick = ?text0
               \<or> (addEmojis \<and> (\<exists>emoji. emoji \<noteq> [] \<and> fst ?pick = emoji @ '' '' @ ?text0))"
    by (auto simp: Let_def split_beta)
  from Cons.IH[of "index + 1" "srtContent @ ?block" "snd ?pick"] obtain texts
    where texts: "list_all2 (\<lambda>t s. t = trim (seg_text s)
                  \<or> (addEmojis \<and> (\<exists>emoji. emoji \<noteq> [] \<and> t = emoji @ '' '' @ trim (seg_text s))))
             texts rest"
      and out: "fst (srt_loop random moment addEmojis (index + 1) rest (srtContent @ ?block)
                       (snd ?pick))
        = (srtContent @ ?block) @ concat (map (\<lambda>(k, s, t).
           decimal (k + 1) @ [CHR 0x0A]
           @ formatSRTTime (seg_start s - m_start moment) @ '' --> ''
           @ formatSRTTime (seg_end s - m_start moment) @ [CHR 0x0A]
           @ t @ [CHR 0x0A, CHR 0x0A]) (enumerate (index + 1) (zip rest texts)))"
    by blast
  show ?case
    using texts text1 out unfolding step
    by (intro exI[of _ "fst ?pick # texts"]) simp
qed

text \<open>
  C7. The subtitle text \<open>generateSRT\<close> returns is, in transcript order, one block for each
  transcript segment \<open>s\<close> with \<open>s.start >= moment.start\<close> and \<open>s.end <= moment.end\<close>,
  as often as the segment occurs, and nothing else: a segment with exactly the moment's
  bounds has its block, a segment that starts before the moment or ends after it has
  none. The block numbered \<open>k + 1\<close> holds the number, the two formatted times of the
  segment minus \<open>moment.start\<close>, and the trimmed segment text, with an emoji in front
  when emoji are on and one is drawn.
\<close>

theorem caption_track_contained_segments:
  "fst (generateSRT random segments moment False rc)
     = concat (map (\<lambda>(k, s).
         decimal (k + 1) @ [CHR 0x0A]
         @ formatSRTTime (seg_start s - m_start moment) @ '' --> ''
         @ formatSRTTime (seg_end s - m_start moment) @ [CHR 0x0A]
         @ trim (seg_text s) @ [CHR 0x0A, CHR 0x0A])
       (enumerate 0
          (filter (\<lambda>s. m_start moment \<le> seg_start s \<and> seg_end s \<le> m_end moment) segments)))
   \<and> (\<exists>texts.
         list_all2 (\<lambda>t s. t = trim (seg_text s)
                      \<or> (addEmojis \<and> (\<exists>emoji. emoji \<noteq> []
                            \<and> t = emoji @ '' '' @ trim (seg_text s))))
           texts
           (filter (\<lambda>s. m_start moment \<le> seg_start s \<and> seg_end s \<le> m_end moment) segments)
         \<and> fst (generateSRT random segments moment addEmojis rc)
           = concat (map (\<lambda>(k, s, t).
               decimal (k + 1) @ [CHR 0x0A]
               @ formatSRTTime (seg_start s - m_start moment) @ '' --> ''
               @ formatSRTTime (seg_end s - m_start moment) @ [CHR 0x0A]
               @ t @ [CHR 0x0A, CHR 0x0A])
             (enumerate 0
                (zip (filter (\<lambda>s. m_start moment \<le> seg_start s \<and> seg_end s \<le> m_end moment)
                        segments)
                     texts))))
   \<and> (\<forall>s \<in> set segments. seg_start s = m_start moment \<and> seg_end s = m_end moment \<longrightarrow>
         s \<in> set (filter (\<lambda>s. m_start moment \<le> seg_start s \<and> seg_end s \<le> m_end moment)
                     segments))
   \<and> (\<forall>s. seg_start s < m_start moment \<or> m_end moment < seg_end s \<longrightarrow>
         s \<notin> set (filter (\<lambda>s. m_start moment \<le> seg_start s \<and> seg_end s \<le> m_end moment)
                     segments))"
proof -
  have rel: "relevantSegments segments moment
               = filter (\<lambda>s. m_start moment \<le> seg_start s \<and> seg_end s \<le> m_end moment) segments"
    by (simp add: relevantSegments_def)
  have plain: "fst (generateSRT random segments moment False rc)
     = concat (map (\<lambda>(k, s).
         decimal (k + 1) @ [CHR 0x0A]
         @ formatSRTTime (seg_start s - m_start moment) @ '' --> ''
         @ formatSRTTime (seg_end s - m_start moment) @ [CHR 0x0A]
         @ trim (seg_text s) @ [CHR 0x0A, CHR 0x0A])
       (enumerate 0
          (filter (\<lambda>s. m_start moment \<le> seg_start s \<and> seg_end s \<le> m_end moment) segments)))"
    unfolding generateSRT_def rel srt_loop_plain by simp
  from srt_loop_texts[of addEmojis
         "filter (\<lambda>s. m_start moment \<le> seg_start s \<and> seg_end s \<le> m_end moment) segments"
         random moment 0 "[]" rc]
  have emoji: "\<exists>texts.
         list_all2 (\<lambda>t s. t = trim (seg_text s)
                      \<or> (addEmojis \<and> (\<exists>emoji. emoji \<noteq> []
                            \<and> t = emoji @ '' '' @ trim (seg_text s))))
           texts
           (filter (\<lambda>s. m_start moment \<le> seg_start s \<and> seg_end s \<le> m_end moment) segments)
         \<and> fst (generateSRT random segments moment addEmojis rc)
           = concat (map (\<lambda>(k, s, t).
               decimal (k + 1) @ [CHR 0x0A]
               @ formatSRTTime (seg_start s - m_start moment) @ '' --> ''
               @ formatSRTTime (seg_end s - m_start moment) @ [CHR 0x0A]
               @ t @ [CHR 0x0A, CHR 0x0A])
             (enumerate 0
                (zip (filter (\<lambda>s. m_start moment \<le> seg_start s \<and> seg_end s \<le> m_end moment)
                        segments)
                     texts)))"
    unfolding generateSRT_def rel by simp
  from plain emoji show ?thesis
    by auto
qed

theorem caption_track_contained_segments_witness:
  "seg '' exact '' 5 20 \<in> set segs_around
   \<and> seg_start (seg '' exact '' 5 20) = m_start moment_5_20
   \<and> seg_end (seg '' exact '' 5 20) = m_end moment_5_20
   \<and> filter (\<lambda>s. m_start moment_5_20 \<le> seg_start s \<and> seg_end s \<le> m_end moment_5_20) segs_around
     = [seg '' exact '' 5 20, seg ''inside'' 6 10.5]
   \<and> fst (generateSRT (\<lambda>k. 0.7) segs_around moment_5_20 False 0)
     = ''1'' @ [CHR 0x0A] @ ''00:00:00,000 --> 00:00:15,000'' @ [CHR 0x0A]
       @ ''exact'' @ [CHR 0x0A, CHR 0x0A]
       @ ''2'' @ [CHR 0x0A] @ ''00:00:01,000 --> 00:00:05,500'' @ [CHR 0x0A]
       @ ''inside'' @ [CHR 0x0A, CHR 0x0A]
   \<and> fst (generateSRT (\<lambda>k. 0.7) segs_around moment_5_20 True 0)
     = ''1'' @ [CHR 0x0A] @ ''00:00:00,000 --> 00:00:15,000'' @ [CHR 0x0A]
       @ [CHR 0xE2, CHR 0x9D, CHR 0x93] @ '' exact'' @ [CHR 0x0A, CHR 0x0A]
       @ ''2'' @ [CHR 0x0A] @ ''00:00:01,000 --> 00:00:05,500'' @ [CHR 0x0A]
       @ [CHR 0xE2, CHR 0x9D, CHR 0x93] @ '' inside'' @ [CHR 0x0A, CHR 0x0A]"
proof -
  note track = caption_track_contained_segments[of "\<lambda>k. 0.7" segs_around moment_5_20 0 True]
  have mem: "seg '' exact '' 5 20 \<in> set segs_around"
    by (simp add: segs_around_def)
  have bounds: "seg_start (seg '' exact '' 5 20) = m_start moment_5_20"
    "seg_end (seg '' exact '' 5 20) = m_end moment_5_20"
    by (simp_all add: seg_def moment_5_20_def moment_of_def)
  have rel: "filter (\<lambda>s. m_start moment_5_20 \<le> seg_start s \<and> seg_end s \<le> m_end moment_5_20)
               segs_around = [seg '' exact '' 5 20, seg ''inside'' 6 10.5]"
    by (simp add: segs_around_def seg_def moment_5_20_def moment_of_def)
  have blocks: "concat (map (\<lambda>(k, s).
         decimal (k + 1) @ [CHR 0x0A]
         @ formatSRTTime (seg_start s - m_start moment_5_20) @ '' --> ''
         @ formatSRTTime (seg_end s - m_start moment_5_20) @ [CHR 0x0A]
         @ trim (seg_text s) @ [CHR 0x0A, CHR 0x0A])
       (enumerate 0 [seg '' exact '' 5 20, seg ''inside'' 6 10.5]))
     = ''1'' @ [CHR 0x0A] @ ''00:00:00,000 --> 00:00:15,000'' @ [CHR 0x0A]
       @ ''exact'' @ [CHR 0x0A, CHR 0x0A]
       @ ''2'' @ [CHR 0x0A] @ ''00:00:01,000 --> 00:00:05,500'' @ [CHR 0x0A]
       @ ''inside'' @ [CHR 0x0A, CHR 0x0A]"
    by code_simp
  from track have "fst (generateSRT (\<lambda>k. 0.7) segs_around moment_5_20 False 0)
     = concat (map (\<lambda>(k, s).
         decimal (k + 1) @ [CHR 0x0A]
         @ formatSRTTime (seg_start s - m_start moment_5_20) @ '' --> ''
         @ formatSRTTime (seg_end s - m_start moment_5_20) @ [CHR 0x0A]
         @ trim (seg_text s) @ [CHR 0x0A, CHR 0x0A])
       (enumerate 0
          (filter (\<lambda>s. m_start moment_5_20 \<le> seg_start s \<and> seg_end s \<le> m_end moment_5_20)
             segs_around)))"
    by blast
  then have plain: "fst (generateSRT (\<lambda>k. 0.7) segs_around moment_5_20 False 0)
     = ''1'' @ [CHR 0x0A] @ ''00:00:00,000 --> 00:00:15,000'' @ [CHR 0x0A]
       @ ''exact'' @ [CHR 0x0A, CHR 0x0A]
       @ ''2'' @ [CHR 0x0A] @ ''00:00:01,000 --> 00:00:05,500'' @ [CHR 0x0A]
       @ ''inside'' @ [CHR 0x0A, CHR 0x0A]"
    unfolding rel blocks .
  have emoji: "fst (generateSRT (\<lambda>k. 0.7) segs_around moment_5_20 True 0)
     = ''1'' @ [CHR 0x0A] @ ''00:00:00,000 --> 00:00:15,000'' @ [CHR 0x0A]
       @ [CHR 0xE2, CHR 0x9D, CHR 0x93] @ '' exact'' @ [CHR 0x0A, CHR 0x0A]
       @ ''2'' @ [CHR 0x0A] @ ''00:00:01,000 --> 00:00:05,500'' @ [CHR 0x0A]
       @ [CHR 0xE2, CHR 0x9D, CHR 0x93] @ '' inside'' @ [CHR 0x0A, CHR 0x0A]"
    by code_simp
  from mem bounds rel plain emoji show ?thesis
    by blast
qed

section \<open>Properties of the ingestion\<close>

lemma youtube_detect_outcome:
  "youtube_detect env jobId videoPath segments jobs =
     (case detectMoments env segments of
        Inl e \<Rightarrow> (Inl e, set_step jobId 60 ''Detecting viral moments'' jobs)
      | Inr moments \<Rightarrow>
          (case getVideoDuration env videoPath of
             Inl e \<Rightarrow> (Inl e, set_step jobId 60 ''Detecting viral moments'' jobs)
           | Inr duration \<Rightarrow>
               (Inr (), (set_step jobId 60 ''Detecting viral moments'' jobs)(jobId \<mapsto>
                  completed_job jobId
                    \<lparr> ir_videoPath = videoPath, ir_segments = segments, ir_moments = moments,
                      ir_duration = duration, ir_source = YouTube \<rparr>))))"
  by (simp add: youtube_detect_def Let_def)

text \<open>The run throws exactly when a stage after the transcript fetch throws.\<close>

lemma processYouTubeVideo_throws:
  "fst (processYouTubeVideo env jobId url videoId videoPath jobs) =
     (case youtube_segments env jobId url videoId videoPath of
        Inl e \<Rightarrow> Inl e
      | Inr segments \<Rightarrow>
          (case detectMoments env segments of
             Inl e \<Rightarrow> Inl e
           | Inr moments \<Rightarrow>
               (case getVideoDuration env videoPath of
                  Inl e \<Rightarrow> Inl e
                | Inr duration \<Rightarrow> Inr ())))"
proof -
  have tail: "fst (youtube_detect env jobId videoPath segments js) =
     (case detectMoments env segments of
        Inl e \<Rightarrow> Inl e
      | Inr moments \<Rightarrow>
          (case getVideoDuration env videoPath of
             Inl e \<Rightarrow> Inl e
           | Inr duration \<Rightarrow> Inr ()))" for segments js
    by (simp add: youtube_detect_outcome split: sum.splits)
  show ?thesis
    by (cases "getYouTubeTranscript env videoId";
        cases "downloadYouTubeVideo env url videoPath";
        cases "extractAudioFromVideo env videoPath (path_join (TEMP_DIR env) (jobId @ ''.wav''))";
        cases "transcribeVideo env (path_join (TEMP_DIR env) (jobId @ ''.wav''))";
        cases "unlinkAudio env (path_join (TEMP_DIR env) (jobId @ ''.wav''))";
        simp add: processYouTubeVideo_def youtube_segments_def tail Let_def)
qed

lemma processYouTubeVideo_completes:
  assumes "youtube_segments env jobId url videoId videoPath = Inr segments"
    and "detectMoments env segments = Inr moments"
    and "getVideoDuration env videoPath = Inr duration"
  shows "snd (processYouTubeVideo env jobId url videoId videoPath jobs) jobId
           = Some (completed_job jobId
               \<lparr> ir_videoPath = videoPath, ir_segments = segments, ir_moments = moments,
                 ir_duration = duration, ir_source = YouTube \<rparr>)"
  using assms
  by (cases "getYouTubeTranscript env videoId";
      cases "downloadYouTubeVideo env url videoPath";
      cases "extractAudioFromVideo env videoPath (path_join (TEMP_DIR env) (jobId @ ''.wav''))";
      cases "transcribeVideo env (path_join (TEMP_DIR env) (jobId @ ''.wav''))";
      cases "unlinkAudio env (path_join (TEMP_DIR env) (jobId @ ''.wav''))";
      simp add: processYouTubeVideo_def youtube_segments_def youtube_detect_outcome Let_def)

lemma ingestYouTube_final:
  "ingestYouTube env jobId url videoId videoPath jobs jobId =
     (case fst (processYouTubeVideo env jobId url videoId videoPath
                  (jobs(jobId \<mapsto>
                     \<lparr> ij_id = Some jobId, ij_status = Some Processing, ij_progress = Some 0,
                       ij_currentStep = Some ''Downloading video'', ij_result = None,
                       ij_error = None \<rparr>))) of
        Inl e \<Rightarrow> Some (failed_job jobId e)
      | Inr u \<Rightarrow>
          snd (processYouTubeVideo env jobId url videoId videoPath
                 (jobs(jobId \<mapsto>
                    \<lparr> ij_id = Some jobId, ij_status = Some Processing, ij_progress = Some 0,
                      ij_currentStep = Some ''Downloading video'', ij_result = None,
                      ij_error = None \<rparr>))) jobId)"
  by (simp add: ingestYouTube_def Let_def split: prod.splits sum.splits)

text \<open>The run of an uploaded file throws exactly when one of its stages throws.\<close>

lemma processUploadedFile_throws:
  "fst (processUploadedFile env jobId videoPath source jobs) =
     (case upload_segments env jobId videoPath source of
        Inl e \<Rightarrow> Inl e
      | Inr segments \<Rightarrow>
          (case detectMoments env segments of
             Inl e \<Rightarrow> Inl e
           | Inr moments \<Rightarrow>
               (case (if source = Upload then getVideoDuration env videoPath else Inr 0) of
                  Inl e \<Rightarrow> Inl e
                | Inr duration \<Rightarrow> Inr ())))"
proof -
  let ?audio = "if source = Audio
                then convertAudio env videoPath (path_join (TEMP_DIR env) (jobId @ ''.wav''))
                else extractAudioFromVideo env videoPath (path_join (TEMP_DIR env) (jobId @ ''.wav''))"
  show ?thesis
  proof (cases ?audio)
    case (Inl e)
    then show ?thesis
      by (simp add: processUploadedFile_def upload_segments_def Let_def)
  next
    case audio: (Inr u)
    show ?thesis
    proof (cases "transcribeVideo env (path_join (TEMP_DIR env) (jobId @ ''.wav''))")
      case (Inl e)
      with audio show ?thesis
        by (simp add: processUploadedFile_def upload_segments_def Let_def)
    next
      case transcribed: (Inr segments)
      show ?thesis
      proof (cases "unlinkAudio env (path_join (TEMP_DIR env) (jobId @ ''.wav''))")
        case (Inl e)
        with audio transcribed show ?thesis
          by (simp add: processUploadedFile_def upload_segments_def Let_def)
      next
        case (Inr v)
        with audio transcribed show ?thesis
          by (cases "detectMoments env segments";
              cases "if source = Upload then getVideoDuration env videoPath else Inr 0")
             (simp_all add: processUploadedFile_def upload_segments_def Let_def)
      qed
    qed
  qed
qed

lemma processUploadedFile_completes:
  assumes "upload_segments env jobId videoPath source = Inr segments"
    and "detectMoments env segments = Inr moments"
    and "(if source = Upload then getVideoDuration env videoPath else Inr 0) = Inr duration"
  shows "snd (processUploadedFile env jobId videoPath source jobs) jobId
           = Some (completed_job jobId
               \<lparr> ir_videoPath = videoPath, ir_segments = segments, ir_moments = moments,
                 ir_duration = duration, ir_source = source \<rparr>)"
proof -
  let ?audio = "if source = Audio
                then convertAudio env videoPath (path_join (TEMP_DIR env) (jobId @ ''.wav''))
                else extractAudioFromVideo env videoPath (path_join (TEMP_DIR env) (jobId @ ''.wav''))"
  from assms(1) obtain u v
    where "?audio = Inr u"
      and "transcribeVideo env (path_join (TEMP_DIR env) (jobId @ ''.wav'')) = Inr segments"
      and "unlinkAudio env (path_join (TEMP_DIR env) (jobId @ ''.wav'')) = Inr v"
    by (auto simp: upload_segments_def split: sum.splits)
  with assms(2,3) show ?thesis
    by (simp add: processUploadedFile_def Let_def)
qed

lemma ingestUpload_final:
  "ingestUpload env jobId videoPath source jobs jobId =
     (case fst (processUploadedFile env jobId videoPath source
                  (jobs(jobId \<mapsto>
                     \<lparr> ij_id = Some jobId, ij_status = Some Processing, ij_progress = Some 0,
                       ij_currentStep = Some ''Processing file'', ij_result = None,
                       ij_error = None \<rparr>))) of
        Inl e \<Rightarrow> Some (failed_job jobId e)
      | Inr u \<Rightarrow>
          snd (processUploadedFile env jobId videoPath source
                 (jobs(jobId \<mapsto>
                    \<lparr> ij_id = Some jobId, ij_status = Some Processing, ij_progress = Some 0,
                      ij_currentStep = Some ''Processing file'', ij_result = None,
                      ij_error = None \<rparr>))) jobId)"
  by (simp add: ingestUpload_def Let_def split: prod.splits sum.splits)

text \<open>
  C8. When a stage of an ingestion throws after the job's creation, the job's store
  entry at the end is the snapshot \<open>{id, status: 'failed', error}\<close> with the thrown
  message, which has no result, no progress and no step. For a YouTube source the stages
  are the download, after a failed transcript fetch the audio extraction, the
  transcription and the removal of the audio file, then the moment detection and the
  duration probe; for an uploaded file they are the audio conversion or extraction, the
  transcription, the removal of the audio file, the moment detection and, for a video,
  the duration probe. A failed transcript fetch alone does not fail the job: when every
  stage returns, the entry is the completed snapshot with the result.
\<close>

theorem ingestion_stage_failure_terminal:
  "(downloadYouTubeVideo env url videoPath = Inl e \<longrightarrow>
      ingestYouTube env jobId url videoId videoPath jobs jobId = Some (failed_job jobId e))
   \<and> (getYouTubeTranscript env videoId = Inl e0
        \<and> downloadYouTubeVideo env url videoPath = Inr ()
        \<and> extractAudioFromVideo env videoPath (path_join (TEMP_DIR env) (jobId @ ''.wav'')) = Inl e
      \<longrightarrow> ingestYouTube env jobId url videoId videoPath jobs jobId = Some (failed_job jobId e))
   \<and> (getYouTubeTranscript env videoId = Inl e0
        \<and> downloadYouTubeVideo env url videoPath = Inr ()
        \<and> extractAudioFromVideo env videoPath (path_join (TEMP_DIR env) (jobId @ ''.wav'')) = Inr ()
        \<and> transcribeVideo env (path_join (TEMP_DIR env) (jobId @ ''.wav'')) = Inl e
      \<longrightarrow> ingestYouTube env jobId url videoId videoPath jobs jobId = Some (failed_job jobId e))
   \<and> (getYouTubeTranscript env videoId = Inl e0
        \<and> downloadYouTubeVideo env url videoPath = Inr ()
        \<and> extractAudioFromVideo env videoPath (path_join (TEMP_DIR env) (jobId @ ''.wav'')) = Inr ()
        \<and> transcribeVideo env (path_join (TEMP_DIR env) (jobId @ ''.wav'')) = Inr segments
        \<and> unlinkAudio env (path_join (TEMP_DIR env) (jobId @ ''.wav'')) = Inl e
      \<longrightarrow> ingestYouTube env jobId url videoId videoPath jobs jobId = Some (failed_job jobId e))
   \<and> (youtube_segments env jobId url videoId videoPath = Inr segments
        \<and> detectMoments env segments = Inl e
      \<longrightarrow> ingestYouTube env jobId url videoId videoPath jobs jobId = Some (failed_job jobId e))
   \<and> (youtube_segments env jobId url videoId videoPath = Inr segments
        \<and> detectMoments env segments = Inr moments
        \<and> getVideoDuration env videoPath = Inl e
      \<longrightarrow> ingestYouTube env jobId url videoId videoPath jobs jobId = Some (failed_job jobId e))
   \<and> (youtube_segments env jobId url videoId videoPath = Inr segments
        \<and> detectMoments env segments = Inr moments
        \<and> getVideoDuration env videoPath = Inr duration
      \<longrightarrow> ingestYouTube env jobId url videoId videoPath jobs jobId
            = Some (completed_job jobId
                \<lparr> ir_videoPath = videoPath, ir_segments = segments, ir_moments = moments,
                  ir_duration = duration, ir_source = YouTube \<rparr>))
   \<and> ((if source = Audio
         then convertAudio env videoPath (path_join (TEMP_DIR env) (jobId @ ''.wav''))
         else extractAudioFromVideo env videoPath (path_join (TEMP_DIR env) (jobId @ ''.wav'')))
        = Inl e
      \<longrightarrow> ingestUpload env jobId videoPath source jobs jobId = Some (failed_job jobId e))
   \<and> ((if source = Audio
         then convertAudio env videoPath (path_join (TEMP_DIR env) (jobId @ ''.wav''))
         else extractAudioFromVideo env videoPath (path_join (TEMP_DIR env) (jobId @ ''.wav'')))
        = Inr ()
        \<and> transcribeVideo env (path_join (TEMP_DIR env) (jobId @ ''.wav'')) = Inl e
      \<longrightarrow> ingestUpload env jobId videoPath source jobs jobId = Some (failed_job jobId e))
   \<and> ((if source = Audio
         then convertAudio env videoPath (path_join (TEMP_DIR env) (jobId @ ''.wav''))
         else extractAudioFromVideo env videoPath (path_join (TEMP_DIR env) (jobId @ ''.wav'')))
        = Inr ()
        \<and> transcribeVideo env (path_join (TEMP_DIR env) (jobId @ ''.wav'')) = Inr segments
        \<and> unlinkAudio env (path_join (TEMP_DIR env) (jobId @ ''.wav'')) = Inl e
      \<longrightarrow> ingestUpload env jobId videoPath source jobs jobId = Some (failed_job jobId e))
   \<and> (upload_segments env jobId videoPath source = Inr segments
        \<and> detectMoments env segments = Inl e
      \<longrightarrow> ingestUpload env jobId videoPath source jobs jobId = Some (failed_job jobId e))
   \<and> (upload_segments env jobId videoPath source = Inr segments
        \<and> detectMoments env segments = Inr moments
        \<and> source = Upload
        \<and> getVideoDuration env videoPath = Inl e
      \<longrightarrow> ingestUpload env jobId videoPath source jobs jobId = Some (failed_job jobId e))
   \<and> (upload_segments env jobId videoPath source = Inr segments
        \<and> detectMoments env segments = Inr moments
        \<and> (if source = Upload then getVideoDuration env videoPath else Inr 0) = Inr duration
      \<longrightarrow> ingestUpload env jobId videoPath source jobs jobId
            = Some (completed_job jobId
                \<lparr> ir_videoPath = videoPath, ir_segments = segments, ir_moments = moments,
                  ir_duration = duration, ir_source = source \<rparr>))
   \<and> ij_status (failed_job jobId e) = Some Failed
   \<and> ij_error (failed_job jobId e) = Some e
   \<and> ij_result (failed_job jobId e) = None
   \<and> ij_progress (failed_job jobId e) = None
   \<and> ij_currentStep (failed_job jobId e) = None"
proof -
  let ?audioPath = "path_join (TEMP_DIR env) (jobId @ ''.wav'')"
  let ?audio = "if source = Audio then convertAudio env videoPath ?audioPath
                else extractAudioFromVideo env videoPath ?audioPath"
  let ?yjobs = "jobs(jobId \<mapsto>
      \<lparr> ij_id = Some jobId, ij_status = Some Processing, ij_progress = Some 0,
        ij_currentStep = Some ''Downloading video'', ij_result = None, ij_error = None \<rparr>)"
  let ?ujobs = "jobs(jobId \<mapsto>
      \<lparr> ij_id = Some jobId, ij_status = Some Processing, ij_progress = Some 0,
        ij_currentStep = Some ''Processing file'', ij_result = None, ij_error = None \<rparr>)"
  let ?yrun = "processYouTubeVideo env jobId url videoId videoPath ?yjobs"
  let ?urun = "processUploadedFile env jobId videoPath source ?ujobs"
  let ?yfinal = "ingestYouTube env jobId url videoId videoPath jobs jobId"
  let ?ufinal = "ingestUpload env jobId videoPath source jobs jobId"
  have yfailed: "?yfinal = Some (failed_job jobId e)" if "fst ?yrun = Inl e"
    using that by (simp add: ingestYouTube_final)
  have ufailed: "?ufinal = Some (failed_job jobId e)" if "fst ?urun = Inl e"
    using that by (simp add: ingestUpload_final)
  have y1: "downloadYouTubeVideo env url videoPath = Inl e \<longrightarrow> ?yfinal = Some (failed_job jobId e)"
  proof
    assume "downloadYouTubeVideo env url videoPath = Inl e"
    then have "fst ?yrun = Inl e"
      by (simp add: processYouTubeVideo_throws youtube_segments_def split: sum.splits)
    then show "?yfinal = Some (failed_job jobId e)"
      by (rule yfailed)
  qed
  have y2: "getYouTubeTranscript env videoId = Inl e0
        \<and> downloadYouTubeVideo env url videoPath = Inr ()
        \<and> extractAudioFromVideo env videoPath ?audioPath = Inl e
      \<longrightarrow> ?yfinal = Some (failed_job jobId e)"
  proof
    assume "getYouTubeTranscript env videoId = Inl e0
        \<and> downloadYouTubeVideo env url videoPath = Inr ()
        \<and> extractAudioFromVideo env videoPath ?audioPath = Inl e"
    then have "fst ?yrun = Inl e"
      by (simp add: processYouTubeVideo_throws youtube_segments_def)
    then show "?yfinal = Some (failed_job jobId e)"
      by (rule yfailed)
  qed
  have y3: "getYouTubeTranscript env videoId = Inl e0
        \<and> downloadYouTubeVideo env url videoPath = Inr ()
        \<and> extractAudioFromVideo env videoPath ?audioPath = Inr ()
        \<and> transcribeVideo env ?audioPath = Inl e
      \<longrightarrow> ?yfinal = Some (failed_job jobId e)"
  proof
    assume "getYouTubeTranscript env videoId = Inl e0
        \<and> downloadYouTubeVideo env url videoPath = Inr ()
        \<and> extractAudioFromVideo env videoPath ?audioPath = Inr ()
        \<and> transcribeVideo env ?audioPath = Inl e"
    then have "fst ?yrun = Inl e"
      by (simp add: processYouTubeVideo_throws youtube_segments_def)
    then show "?yfinal = Some (failed_job jobId e)"
      by (rule yfailed)
  qed
  have y4: "getYouTubeTranscript env videoId = Inl e0
        \<and> downloadYouTubeVideo env url videoPath = Inr ()
        \<and> extractAudioFromVideo env videoPath ?audioPath = Inr ()
        \<and> transcribeVideo env ?audioPath = Inr segments
        \<and> unlinkAudio env ?audioPath = Inl e
      \<longrightarrow> ?yfinal = Some (failed_job jobId e)"
  proof
    assume "getYouTubeTranscript env videoId = Inl e0
        \<and> downloadYouTubeVideo env url videoPath = Inr ()
        \<and> extractAudioFromVideo env videoPath ?audioPath = Inr ()
        \<and> transcribeVideo env ?audioPath = Inr segments
        \<and> unlinkAudio env ?audioPath = Inl e"
    then have "fst ?yrun = Inl e"
      by (simp add: processYouTubeVideo_throws youtube_segments_def)
    then show "?yfinal = Some (failed_job jobId e)"
      by (rule yfailed)
  qed
  have y5: "youtube_segments env jobId url videoId videoPath = Inr segments
        \<and> detectMoments env segments = Inl e
      \<longrightarrow> ?yfinal = Some (failed_job jobId e)"
  proof
    assume "youtube_segments env jobId url videoId videoPath = Inr segments
        \<and> detectMoments env segments = Inl e"
    then have "fst ?yrun = Inl e"
      by (simp add: processYouTubeVideo_throws)
    then show "?yfinal = Some (failed_job jobId e)"
      by (rule yfailed)
  qed
  have y6: "youtube_segments env jobId url videoId videoPath = Inr segments
        \<and> detectMoments env segments = Inr moments
        \<and> getVideoDuration env videoPath = Inl e
      \<longrightarrow> ?yfinal = Some (failed_job jobId e)"
  proof
    assume "youtube_segments env jobId url videoId videoPath = Inr segments
        \<and> detectMoments env segments = Inr moments
        \<and> getVideoDuration env videoPath = Inl e"
    then have "fst ?yrun = Inl e"
      by (simp add: processYouTubeVideo_throws)
    then show "?yfinal = Some (failed_job jobId e)"
      by (rule yfailed)
  qed
  have y7: "youtube_segments env jobId url videoId videoPath = Inr segments
        \<and> detectMoments env segments = Inr moments
        \<and> getVideoDuration env videoPath = Inr duration
      \<longrightarrow> ?yfinal = Some (completed_job jobId
                \<lparr> ir_videoPath = videoPath, ir_segments = segments, ir_moments = moments,
                  ir_duration = duration, ir_source = YouTube \<rparr>)"
  proof
    assume a: "youtube_segments env jobId url videoId videoPath = Inr segments
        \<and> detectMoments env segments = Inr moments
        \<and> getVideoDuration env videoPath = Inr duration"
    then have run: "fst ?yrun = Inr ()"
      by (simp add: processYouTubeVideo_throws)
    from a have "snd ?yrun jobId = Some (completed_job jobId
                \<lparr> ir_videoPath = videoPath, ir_segments = segments, ir_moments = moments,
                  ir_duration = duration, ir_source = YouTube \<rparr>)"
      by (intro processYouTubeVideo_completes) simp_all
    with run show "?yfinal = Some (completed_job jobId
                \<lparr> ir_videoPath = videoPath, ir_segments = segments, ir_moments = moments,
                  ir_duration = duration, ir_source = YouTube \<rparr>)"
      by (simp add: ingestYouTube_final)
  qed
  have u1: "?audio = Inl e \<longrightarrow> ?ufinal = Some (failed_job jobId e)"
  proof
    assume "?audio = Inl e"
    then have "fst ?urun = Inl e"
      by (simp add: processUploadedFile_throws upload_segments_def)
    then show "?ufinal = Some (failed_job jobId e)"
      by (rule ufailed)
  qed
  have u2: "?audio = Inr () \<and> transcribeVideo env ?audioPath = Inl e
      \<longrightarrow> ?ufinal = Some (failed_job jobId e)"
  proof
    assume "?audio = Inr () \<and> transcribeVideo env ?audioPath = Inl e"
    then have "fst ?urun = Inl e"
      by (simp add: processUploadedFile_throws upload_segments_def)
    then show "?ufinal = Some (failed_job jobId e)"
      by (rule ufailed)
  qed
  have u3: "?audio = Inr () \<and> transcribeVideo env ?audioPath = Inr segments
        \<and> unlinkAudio env ?audioPath = Inl e
      \<longrightarrow> ?ufinal = Some (failed_job jobId e)"
  proof
    assume "?audio = Inr () \<and> transcribeVideo env ?audioPath = Inr segments
        \<and> unlinkAudio env ?audioPath = Inl e"
    then have "fst ?urun = Inl e"
      by (simp add: processUploadedFile_throws upload_segments_def)
    then show "?ufinal = Some (failed_job jobId e)"
      by (rule ufailed)
  qed
  have u4: "upload_segments env jobId videoPath source = Inr segments
        \<and> detectMoments env segments = Inl e
      \<longrightarrow> ?ufinal = Some (failed_job jobId e)"
  proof
    assume "upload_segments env jobId videoPath source = Inr segments
        \<and> detectMoments env segments = Inl e"
    then have "fst ?urun = Inl e"
      by (simp add: processUploadedFile_throws)
    then show "?ufinal = Some (failed_job jobId e)"
      by (rule ufailed)
  qed
  have u5: "upload_segments env jobId videoPath source = Inr segments
        \<and> detectMoments env segments = Inr moments
        \<and> source = Upload
        \<and> getVideoDuration env videoPath = Inl e
      \<longrightarrow> ?ufinal = Some (failed_job jobId e)"
  proof
    assume "upload_segments env jobId videoPath source = Inr segments
        \<and> detectMoments env segments = Inr moments
        \<and> source = Upload
        \<and> getVideoDuration env videoPath = Inl e"
    then have "fst ?urun = Inl e"
      by (clarsimp simp: processUploadedFile_throws)
    then show "?ufinal = Some (failed_job jobId e)"
      by (rule ufailed)
  qed
  have u6: "upload_segments env jobId videoPath source = Inr segments
        \<and> detectMoments env segments = Inr moments
        \<and> (if source = Upload then getVideoDuration env videoPath else Inr 0) = Inr duration
      \<longrightarrow> ?ufinal = Some (completed_job jobId
                \<lparr> ir_videoPath = videoPath, ir_segments = segments, ir_moments = moments,
                  ir_duration = duration, ir_source = source \<rparr>)"
  proof
    assume a: "upload_segments env jobId videoPath source = Inr segments
        \<and> detectMoments env segments = Inr moments
        \<and> (if source = Upload then getVideoDuration env videoPath else Inr 0) = Inr duration"
    then have run: "fst ?urun = Inr ()"
      by (simp add: processUploadedFile_throws)
    from a have "snd ?urun jobId = Some (completed_job jobId
                \<lparr> ir_videoPath = videoPath, ir_segments = segments, ir_moments = moments,
                  ir_duration = duration, ir_source = source \<rparr>)"
      by (intro processUploadedFile_completes) simp_all
    with run show "?ufinal = Some (completed_job jobId
                \<lparr> ir_videoPath = videoPath, ir_segments = segments, ir_moments = moments,
                  ir_duration = duration, ir_source = source \<rparr>)"
      by (simp add: ingestUpload_final)
  qed
  have snapshot: "ij_status (failed_job jobId e) = Some Failed"
    "ij_error (failed_job jobId e) = Some e" "ij_result (failed_job jobId e) = None"
    "ij_progress (failed_job jobId e) = None" "ij_currentStep (failed_job jobId e) = None"
    by (simp_all add: failed_job_def)
  show ?thesis
    by (intro conjI y1 y2 y3 y4 y5 y6 y7 u1 u2 u3 u4 u5 u6 snapshot)
qed

theorem ingestion_stage_failure_terminal_witness:
  "downloadYouTubeVideo ingest_download_fails ''https://youtu.be/abc'' ''/app/uploads/j1.mp4''
     = Inl ''Status code: 410''
   \<and> ingestYouTube ingest_download_fails ''j1'' ''https://youtu.be/abc'' ''abc''
        ''/app/uploads/j1.mp4'' Map.empty ''j1''
      = Some (failed_job ''j1'' ''Status code: 410'')
   \<and> youtube_segments ingest_probe_fails ''j1'' ''https://youtu.be/abc'' ''abc''
        ''/app/uploads/j1.mp4'' = Inr segs3
   \<and> getVideoDuration ingest_probe_fails ''/app/uploads/j1.mp4'' = Inl ''ffprobe: not found''
   \<and> ingestYouTube ingest_probe_fails ''j1'' ''https://youtu.be/abc'' ''abc''
        ''/app/uploads/j1.mp4'' Map.empty ''j1''
      = Some (failed_job ''j1'' ''ffprobe: not found'')
   \<and> getYouTubeTranscript ingest_ok ''abc'' = Inl ''Failed to fetch YouTube transcript''
   \<and> ingestYouTube ingest_ok ''j1'' ''https://youtu.be/abc'' ''abc''
        ''/app/uploads/j1.mp4'' Map.empty ''j1''
      = Some (completed_job ''j1''
          \<lparr> ir_videoPath = ''/app/uploads/j1.mp4'', ir_segments = segs3,
            ir_moments = detectViralMoments uuid0 engine_keep service_down segs3 10 60,
            ir_duration = 20, ir_source = YouTube \<rparr>)
   \<and> transcribeVideo ingest_transcribe_fails (path_join ''/app/temp'' (''j2'' @ ''.wav''))
      = Inl ''Failed to transcribe: 401''
   \<and> ingestUpload ingest_transcribe_fails ''j2'' ''/app/uploads/j2.mp4'' Upload Map.empty ''j2''
      = Some (failed_job ''j2'' ''Failed to transcribe: 401'')
   \<and> ingestUpload ingest_probe_fails ''j2'' ''/app/uploads/j2.mp4'' Upload Map.empty ''j2''
      = Some (failed_job ''j2'' ''ffprobe: not found'')
   \<and> ingestUpload ingest_probe_fails ''j3'' ''/app/uploads/j3.mp3'' Audio Map.empty ''j3''
      = Some (completed_job ''j3''
          \<lparr> ir_videoPath = ''/app/uploads/j3.mp3'', ir_segments = segs3,
            ir_moments = detectViralMoments uuid0 engine_keep service_down segs3 10 60,
            ir_duration = 0, ir_source = Audio \<rparr>)"
proof -
  let ?moments = "detectViralMoments uuid0 engine_keep service_down segs3 10 60"
  have d: "downloadYouTubeVideo ingest_download_fails ''https://youtu.be/abc''
             ''/app/uploads/j1.mp4'' = Inl ''Status code: 410''"
    by (simp add: ingest_download_fails_def ingest_ok_def)
  have s: "youtube_segments ingest_probe_fails ''j1'' ''https://youtu.be/abc'' ''abc''
             ''/app/uploads/j1.mp4'' = Inr segs3"
    "youtube_segments ingest_ok ''j1'' ''https://youtu.be/abc'' ''abc''
             ''/app/uploads/j1.mp4'' = Inr segs3"
    by (simp_all add: youtube_segments_def ingest_probe_fails_def ingest_ok_def)
  have us: "upload_segments ingest_probe_fails ''j2'' ''/app/uploads/j2.mp4'' Upload = Inr segs3"
    "upload_segments ingest_probe_fails ''j3'' ''/app/uploads/j3.mp3'' Audio = Inr segs3"
    by (simp_all add: upload_segments_def ingest_probe_fails_def ingest_ok_def)
  have m: "detectMoments ingest_probe_fails segs3 = Inr ?moments"
    "detectMoments ingest_ok segs3 = Inr ?moments"
    by (simp_all add: ingest_probe_fails_def ingest_ok_def)
  have p: "getVideoDuration ingest_probe_fails p = Inl ''ffprobe: not found''"
    "getVideoDuration ingest_ok p = Inr 20" for p
    by (simp_all add: ingest_probe_fails_def ingest_ok_def)
  have t: "getYouTubeTranscript ingest_ok ''abc'' = Inl ''Failed to fetch YouTube transcript''"
    by (simp add: ingest_ok_def)
  have a: "(if Upload = Audio
            then convertAudio ingest_transcribe_fails ''/app/uploads/j2.mp4''
                   (path_join (TEMP_DIR ingest_transcribe_fails) (''j2'' @ ''.wav''))
            else extractAudioFromVideo ingest_transcribe_fails ''/app/uploads/j2.mp4''
                   (path_join (TEMP_DIR ingest_transcribe_fails) (''j2'' @ ''.wav''))) = Inr ()"
    "transcribeVideo ingest_transcribe_fails q = Inl ''Failed to transcribe: 401''"
    "TEMP_DIR ingest_transcribe_fails = ''/app/temp''" for q
    by (simp_all add: ingest_transcribe_fails_def ingest_ok_def)
  have dur0: "(if Audio = Upload then getVideoDuration ingest_probe_fails ''/app/uploads/j3.mp3''
               else Inr 0) = Inr 0"
    by simp
  note y_download = ingestion_stage_failure_terminal
             [of ingest_download_fails "''https://youtu.be/abc''" "''/app/uploads/j1.mp4''"
                 "''Status code: 410''" "''j1''" "''abc''" Map.empty]
  note y_probe = ingestion_stage_failure_terminal
             [of ingest_probe_fails "''https://youtu.be/abc''" "''/app/uploads/j1.mp4''"
                 "''ffprobe: not found''" "''j1''" "''abc''" Map.empty _ segs3 ?moments]
  note y_ok = ingestion_stage_failure_terminal
             [of ingest_ok "''https://youtu.be/abc''" "''/app/uploads/j1.mp4''"
                 _ "''j1''" "''abc''" Map.empty _ segs3 ?moments 20]
  note u_transcribe = ingestion_stage_failure_terminal
             [of ingest_transcribe_fails _ "''/app/uploads/j2.mp4''"
                 "''Failed to transcribe: 401''" "''j2''" _ Map.empty _ _ _ _ Upload]
  note u_probe = ingestion_stage_failure_terminal
             [of ingest_probe_fails _ "''/app/uploads/j2.mp4''"
                 "''ffprobe: not found''" "''j2''" _ Map.empty _ segs3 ?moments _ Upload]
  note u_ok = ingestion_stage_failure_terminal
             [of ingest_probe_fails _ "''/app/uploads/j3.mp3''"
                 _ "''j3''" _ Map.empty _ segs3 ?moments 0 Audio]
  have 1: "ingestYouTube ingest_download_fails ''j1'' ''https://youtu.be/abc''
        ''abc'' ''/app/uploads/j1.mp4'' Map.empty ''j1''
          = Some (failed_job ''j1'' ''Status code: 410'')"
    by (rule y_download [THEN conjunct1, THEN mp]) (intro conjI d)
  have 2: "ingestYouTube ingest_probe_fails ''j1''
        ''https://youtu.be/abc'' ''abc'' ''/app/uploads/j1.mp4'' Map.empty ''j1''
          = Some (failed_job ''j1'' ''ffprobe: not found'')"
    by (rule y_probe [THEN conjunct2, THEN conjunct2, THEN conjunct2, THEN conjunct2, THEN conjunct2, THEN conjunct1, THEN mp]) (intro conjI s(1) m(1) p(1))
  have 3: "ingestYouTube ingest_ok ''j1'' ''https://youtu.be/abc''
        ''abc'' ''/app/uploads/j1.mp4'' Map.empty ''j1''
      = Some (completed_job ''j1''
          \<lparr> ir_videoPath = ''/app/uploads/j1.mp4'', ir_segments = segs3,
            ir_moments = ?moments, ir_duration = 20, ir_source = YouTube \<rparr>)"
    by (rule y_ok [THEN conjunct2, THEN conjunct2, THEN conjunct2, THEN conjunct2, THEN conjunct2, THEN conjunct2, THEN conjunct1, THEN mp]) (intro conjI s(2) m(2) p(2))
  have 4: "ingestUpload ingest_transcribe_fails ''j2''
        ''/app/uploads/j2.mp4'' Upload Map.empty ''j2''
          = Some (failed_job ''j2'' ''Failed to transcribe: 401'')"
    by (rule u_transcribe [THEN conjunct2, THEN conjunct2, THEN conjunct2, THEN conjunct2, THEN conjunct2, THEN conjunct2, THEN conjunct2, THEN conjunct2, THEN conjunct1, THEN mp]) (intro conjI a(1) a(2))
  have 5: "ingestUpload ingest_probe_fails ''j2''
        ''/app/uploads/j2.mp4'' Upload Map.empty ''j2''
          = Some (failed_job ''j2'' ''ffprobe: not found'')"
    by (rule u_probe [THEN conjunct2, THEN conjunct2, THEN conjunct2, THEN conjunct2, THEN conjunct2, THEN conjunct2, THEN conjunct2, THEN conjunct2, THEN conjunct2, THEN conjunct2, THEN conjunct2, THEN conjunct1, THEN mp]) (intro conjI us(1) m(1) p(1) refl)
  have 6: "ingestUpload ingest_probe_fails ''j3''
        ''/app/uploads/j3.mp3'' Audio Map.empty ''j3''
      = Some (completed_job ''j3''
          \<lparr> ir_videoPath = ''/app/uploads/j3.mp3'', ir_segments = segs3,
            ir_moments = ?moments, ir_duration = 0, ir_source = Audio \<rparr>)"
    by (rule u_ok [THEN conjunct2, THEN conjunct2, THEN conjunct2, THEN conjunct2, THEN conjunct2, THEN conjunct2, THEN conjunct2, THEN conjunct2, THEN conjunct2, THEN conjunct2, THEN conjunct2, THEN conjunct2, THEN conjunct1, THEN mp]) (intro conjI us(2) m(1) dur0)
  show ?thesis
    by (intro conjI d s(1) p(1) t a(2) 1 2 3 4 5 6)
qed

section \<open>Properties of the clip pipeline\<close>

lemma path_join_suffix_eq [simp]:
  "path_join dir (name @ s) = path_join dir (name @ t) \<longleftrightarrow> s = t"
  by (simp add: path_join_def)

lemma starts_with_length: "starts_with s p \<Longrightarrow> length p \<le> length s"
  by (induction s p rule: starts_with.induct) auto

lemma length_replace_first:
  "length pat = length rep \<Longrightarrow> length (replace_first pat rep s) = length s"
  by (induction s) (auto dest: starts_with_length)

lemma srt_path_neq_captioned [simp]:
  "replace_first ''.mp4'' ''.srt'' (path_join dir (name @ ''_base.mp4''))
     \<noteq> path_join dir (name @ ''_captioned.mp4'')"
proof
  assume "replace_first ''.mp4'' ''.srt'' (path_join dir (name @ ''_base.mp4''))
            = path_join dir (name @ ''_captioned.mp4'')"
  then have "length (replace_first ''.mp4'' ''.srt'' (path_join dir (name @ ''_base.mp4'')))
               = length (path_join dir (name @ ''_captioned.mp4''))"
    by simp
  then show False
    by (simp add: length_replace_first path_join_def)
qed

lemma report_progress_fields [simp]:
  "files (report_progress j i n w) = files w"
  "uuidCount (report_progress j i n w) = uuidCount w"
  "randomCount (report_progress j i n w) = randomCount w"
  by (simp_all add: report_progress_def)

lemma generateThumbnail_throws:
  assumes "thumbnail_throws env"
  shows "\<exists>e. generateThumbnail env src dst t w = Threw e w"
proof -
  from assms have "isl (ffmpeg_thumbnail env (files w) src dst t)"
    by (simp add: thumbnail_throws_def)
  then obtain e where "ffmpeg_thumbnail env (files w) src dst t = Inl e"
    by (cases "ffmpeg_thumbnail env (files w) src dst t") auto
  then show ?thesis by (simp add: generateThumbnail_def)
qed

lemma createClip_throws:
  assumes "crop_throws env moment"
  shows "\<exists>e. createClip env videoPath out (m_start moment) (m_end moment) f w = Threw e w"
proof -
  from assms
  have "isl (ffmpeg_crop env (files w) videoPath out (m_start moment)
               (m_end moment - m_start moment) (cropFilter f))"
    by (simp add: crop_throws_def)
  then obtain e where "ffmpeg_crop env (files w) videoPath out (m_start moment)
               (m_end moment - m_start moment) (cropFilter f) = Inl e"
    by (cases "ffmpeg_crop env (files w) videoPath out (m_start moment)
               (m_end moment - m_start moment) (cropFilter f)") auto
  then show ?thesis by (simp add: createClip_def)
qed

lemma addCaptionsToVideo_throws:
  assumes "\<forall>fs src srt dst. isl (ffmpeg_subtitles env fs src srt dst)"
  shows "\<exists>e w1. addCaptionsToVideo env videoPath out segments moment addEmojis w = Threw e w1"
proof -
  obtain srtContent rc
    where g: "generateSRT (math_random env) segments moment addEmojis (randomCount w)
                = (srtContent, rc)"
    by (cases "generateSRT (math_random env) segments moment addEmojis (randomCount w)")
  let ?srt = "replace_first ''.mp4'' ''.srt'' videoPath"
  let ?w1 = "writeFileSync ?srt srtContent (w\<lparr>randomCount := rc\<rparr>)"
  from assms have "isl (ffmpeg_subtitles env (files ?w1) videoPath ?srt out)"
    by simp
  then obtain e where "ffmpeg_subtitles env (files ?w1) videoPath ?srt out = Inl e"
    by (cases "ffmpeg_subtitles env (files ?w1) videoPath ?srt out") auto
  with g show ?thesis by (simp add: addCaptionsToVideo_def)
qed

lemma finish_step_Returned:
  assumes "finish_step env clipId finalPath moment w = Returned clip w1"
  shows "pc_ready clip \<and> pc_moment clip = moment \<and> clip_well_formed clip"
  using assms
  by (auto simp: finish_step_def generateThumbnail_def Let_def clip_well_formed_def
        split: outcome.splits sum.splits if_splits)

lemma finish_step_throws:
  assumes "thumbnail_throws env"
  shows "finish_step env clipId finalPath moment w \<noteq> Returned clip w1"
proof -
  have "\<exists>e. generateThumbnail env src dst t w' = Threw e w'" for src dst t w'
    using assms by (rule generateThumbnail_throws)
  then show ?thesis
    by (auto simp: finish_step_def Let_def split: outcome.splits)
       (metis outcome.distinct(1))+
qed

lemma caption_step_throws:
  assumes "cfg_addCaptions cfg" "\<forall>fs src srt dst. isl (ffmpeg_subtitles env fs src srt dst)"
  shows "caption_step env cfg clipId base segments moment w \<noteq> Returned p w1"
proof -
  obtain e w2 where "addCaptionsToVideo env base
      (path_join (CLIPS_DIR env) (clipId @ ''_captioned.mp4'')) segments moment
      (cfg_addEmojis cfg) w = Threw e w2"
    using addCaptionsToVideo_throws[OF assms(2)] by blast
  with assms(1) show ?thesis
    by (simp add: caption_step_def)
qed

lemma clip_body_Returned:
  assumes "clip_body env clipJobId videoPath segments n config i moment w = Returned clip w1"
  shows "pc_ready clip \<and> pc_moment clip = moment \<and> clip_well_formed clip
         \<and> \<not> crop_throws env moment \<and> \<not> caption_throws env config \<and> \<not> thumbnail_throws env"
proof -
  let ?w2 = "(report_progress clipJobId i n w)\<lparr>uuidCount := uuidCount w + 1\<rparr>"
  let ?clipId = "uuidv4 env (uuidCount w)"
  let ?base = "path_join (CLIPS_DIR env) (?clipId @ ''_base.mp4'')"
  from assms obtain cfg where cfg: "read_config config = Inr cfg"
    by (cases "read_config config") (simp_all add: clip_body_def Let_def)
  with assms obtain w3
    where crop: "createClip env videoPath ?base (m_start moment) (m_end moment) (cfg_format cfg) ?w2
                   = Returned () w3"
    by (cases "createClip env videoPath ?base (m_start moment) (m_end moment) (cfg_format cfg) ?w2")
       (simp_all add: clip_body_def Let_def)
  with assms cfg obtain p w4
    where cap: "caption_step env cfg ?clipId ?base segments moment w3 = Returned p w4"
    by (cases "caption_step env cfg ?clipId ?base segments moment w3")
       (simp_all add: clip_body_def Let_def)
  with assms cfg crop obtain fp w5
    where zoom: "zoom_step env cfg ?clipId ?base p w4 = Returned fp w5"
    by (cases "zoom_step env cfg ?clipId ?base p w4") (simp_all add: clip_body_def Let_def)
  with assms cfg crop cap
  have fin: "finish_step env ?clipId fp moment w5 = Returned clip w1"
    by (simp add: clip_body_def Let_def)
  have "\<not> crop_throws env moment"
    using crop createClip_throws[of env moment videoPath ?base "cfg_format cfg" ?w2] by auto
  moreover have "\<not> caption_throws env config"
    using cap cfg caption_step_throws[of cfg env ?clipId ?base segments moment w3 p w4]
    by (auto simp: caption_throws_def)
  moreover have "\<not> thumbnail_throws env"
    using fin finish_step_throws by blast
  ultimately show ?thesis
    using finish_step_Returned[OF fin] by blast
qed


text \<open>What the loop guarantees for the clip it pushes for a moment.\<close>

lemma clip_loop_results:
  "\<exists>rs w1. clip_loop env clipJobId videoPath segments n config i ms clips w = (clips @ rs, w1)
     \<and> list_all2 (\<lambda>m c. pc_moment c = m \<and> clip_well_formed c
          \<and> (crop_throws env m \<or> caption_throws env config \<or> thumbnail_throws env
               \<longrightarrow> \<not> pc_ready c)) ms rs"
proof (induction ms arbitrary: i clips w)
  case Nil
  then show ?case by simp
next
  case (Cons m ms)
  show ?case
  proof (cases "clip_body env clipJobId videoPath segments n config i m w")
    case (Returned clip w1)
    from Cons.IH[of "i + 1" "clips @ [clip]" w1] obtain rs w2
      where "clip_loop env clipJobId videoPath segments n config (i + 1) ms (clips @ [clip]) w1
               = ((clips @ [clip]) @ rs, w2)"
        and "list_all2 (\<lambda>m c. pc_moment c = m \<and> clip_well_formed c
          \<and> (crop_throws env m \<or> caption_throws env config \<or> thumbnail_throws env
               \<longrightarrow> \<not> pc_ready c)) ms rs"
      by blast
    with Returned clip_body_Returned[OF Returned] show ?thesis
      by (intro exI[of _ "clip # rs"] exI[of _ w2]) simp
  next
    case (Threw e w1)
    let ?c = "\<lparr> pc_id = uuidv4 env (uuidCount w1), pc_videoPath = None,
                 pc_thumbnailPath = None, pc_duration = None, pc_error = Some e,
                 pc_moment = m, pc_ready = False \<rparr>"
    from Cons.IH[of "i + 1" "clips @ [?c]" "w1\<lparr>uuidCount := uuidCount w1 + 1\<rparr>"] obtain rs w2
      where "clip_loop env clipJobId videoPath segments n config (i + 1) ms (clips @ [?c])
               (w1\<lparr>uuidCount := uuidCount w1 + 1\<rparr>) = ((clips @ [?c]) @ rs, w2)"
        and "list_all2 (\<lambda>m c. pc_moment c = m \<and> clip_well_formed c
          \<and> (crop_throws env m \<or> caption_throws env config \<or> thumbnail_throws env
               \<longrightarrow> \<not> pc_ready c)) ms rs"
      by blast
    with Threw show ?thesis
      by (intro exI[of _ "?c # rs"] exI[of _ w2]) (simp add: clip_well_formed_def)
  qed
qed

text \<open>
  C5. A run of \<open>processClips\<close> over \<open>N\<close> moments ends with the job's entry in state
  \<open>completed\<close>, progress 100 and \<open>processedClips = N\<close>, whatever happened to the
  clips. The result has exactly \<open>N\<close> clips, the clip at each position is the one of the
  moment at that position, and each clip is either ready with its paths or not ready
  with an error message and no paths. The clip of a moment whose crop throws is not
  ready and carries an error, and so is every clip when the caption stage is on and
  throws, or when the thumbnail stage throws.
\<close>

theorem clip_rendering_isolates_failures:
  "\<exists>clips.
     clipJobs (processClips env clipJobId videoPath segments moments config w) clipJobId
       = Some \<lparr> cj_id = Some clipJobId, cj_status = Some Completed, cj_progress = Some 100,
                cj_currentStep = Some ''Complete'', cj_totalClips = Some (length moments),
                cj_processedClips = Some (length moments), cj_result = Some clips,
                cj_error = None \<rparr>
     \<and> length clips = length moments
     \<and> map pc_moment clips = moments
     \<and> (\<forall>i < length moments. clip_well_formed (clips ! i))
     \<and> (\<forall>i < length moments.
          crop_throws env (moments ! i) \<or> caption_throws env config \<or> thumbnail_throws env
          \<longrightarrow> \<not> pc_ready (clips ! i) \<and> pc_error (clips ! i) \<noteq> None)"
proof -
  from clip_loop_results[of env clipJobId videoPath segments "length moments" config 0 moments "[]" w]
  obtain rs w1
    where loop: "clip_loop env clipJobId videoPath segments (length moments) config 0 moments [] w
                   = (rs, w1)"
      and all: "list_all2 (\<lambda>m c. pc_moment c = m \<and> clip_well_formed c
          \<and> (crop_throws env m \<or> caption_throws env config \<or> thumbnail_throws env
               \<longrightarrow> \<not> pc_ready c)) moments rs"
    by auto
  from all have len: "length rs = length moments"
    by (simp add: list_all2_lengthD)
  from all have nth: "pc_moment (rs ! i) = moments ! i \<and> clip_well_formed (rs ! i)
          \<and> (crop_throws env (moments ! i) \<or> caption_throws env config \<or> thumbnail_throws env
               \<longrightarrow> \<not> pc_ready (rs ! i))" if "i < length moments" for i
    using that by (simp add: list_all2_conv_all_nth)
  have "map pc_moment rs = moments"
    using len nth by (simp add: list_eq_iff_nth_eq)
  moreover have "\<not> pc_ready c \<Longrightarrow> clip_well_formed c \<Longrightarrow> pc_error c \<noteq> None" for c
    by (simp add: clip_well_formed_def)
  ultimately show ?thesis
    using loop len nth
    by (intro exI[of _ rs]) (auto simp: processClips_def)
qed

theorem clip_rendering_isolates_failures_witness:
  "crop_throws env_crop_fails_at5 (moments3 ! 1) \<and> (1::nat) < length moments3
   \<and> (\<exists>clips. cj_result (the (clipJobs (processClips env_crop_fails_at5 ''job''
                   ''/app/uploads/v.mp4'' segs3 moments3 (JObj []) world0) ''job'')) = Some clips
         \<and> length clips = 3 \<and> \<not> pc_ready (clips ! 1) \<and> pc_error (clips ! 1) \<noteq> None)
   \<and> map_option (map pc_ready)
        (cj_result (the (clipJobs (processClips env_crop_fails_at5 ''job''
           ''/app/uploads/v.mp4'' segs3 moments3 (JObj []) world0) ''job'')))
      = Some [True, False, True]
   \<and> map_option (map pc_ready)
        (cj_result (the (clipJobs (processClips env_crop_fails ''job''
           ''/app/uploads/v.mp4'' segs3 moments3 (JObj []) world0) ''job'')))
      = Some [False, False, False]
   \<and> cj_status (the (clipJobs (processClips env_crop_fails ''job''
        ''/app/uploads/v.mp4'' segs3 moments3 (JObj []) world0) ''job'')) = Some Completed"
proof -
  have throws: "crop_throws env_crop_fails_at5 (moments3 ! 1)"
    by (simp add: crop_throws_def env_crop_fails_at5_def env_ok_def moments3_def moment_of_def)
  have len: "(1::nat) < length moments3" "length moments3 = 3"
    by (simp_all add: moments3_def)
  from clip_rendering_isolates_failures
         [of env_crop_fails_at5 "''job''" "''/app/uploads/v.mp4''" segs3 moments3 "JObj []" world0]
       throws len
  have one: "\<exists>clips. cj_result (the (clipJobs (processClips env_crop_fails_at5 ''job''
                   ''/app/uploads/v.mp4'' segs3 moments3 (JObj []) world0) ''job'')) = Some clips
         \<and> length clips = 3 \<and> \<not> pc_ready (clips ! 1) \<and> pc_error (clips ! 1) \<noteq> None"
    by auto
  have flags: "map_option (map pc_ready)
        (cj_result (the (clipJobs (processClips env_crop_fails_at5 ''job''
           ''/app/uploads/v.mp4'' segs3 moments3 (JObj []) world0) ''job'')))
      = Some [True, False, True]"
    by code_simp
  have none: "map_option (map pc_ready)
        (cj_result (the (clipJobs (processClips env_crop_fails ''job''
           ''/app/uploads/v.mp4'' segs3 moments3 (JObj []) world0) ''job'')))
      = Some [False, False, False]"
    by code_simp
  have status: "cj_status (the (clipJobs (processClips env_crop_fails ''job''
        ''/app/uploads/v.mp4'' segs3 moments3 (JObj []) world0) ''job'')) = Some Completed"
    by code_simp
  from throws len(1) one flags none status show ?thesis by blast
qed

subsection \<open>The zoom fallback\<close>


lemma caption_step_Returned:
  assumes cap: "caption_step env cfg clipId (path_join (CLIPS_DIR env) (clipId @ ''_base.mp4''))
                  segments moment w3 = Returned p w4"
    and base: "files w3 (path_join (CLIPS_DIR env) (clipId @ ''_base.mp4'')) = Some b0"
  shows "(p = path_join (CLIPS_DIR env) (clipId @ ''_base.mp4'')
          \<or> p = path_join (CLIPS_DIR env) (clipId @ ''_captioned.mp4''))
         \<and> (\<exists>b. files w4 p = Some b)"
proof (cases "cfg_addCaptions cfg")
  case False
  with cap base show ?thesis by (simp add: caption_step_def)
next
  case True
  let ?base = "path_join (CLIPS_DIR env) (clipId @ ''_base.mp4'')"
  let ?cap = "path_join (CLIPS_DIR env) (clipId @ ''_captioned.mp4'')"
  let ?srt = "replace_first ''.mp4'' ''.srt'' ?base"
  from cap True obtain w5
    where add: "addCaptionsToVideo env ?base ?cap segments moment (cfg_addEmojis cfg) w3
                  = Returned () w5"
      and un: "unlinkSync ?base w5 = Returned () w4" and p: "p = ?cap"
    by (auto simp: caption_step_def Let_def split: outcome.splits)
  from add obtain b where "files w5 ?cap = Some b"
    by (auto simp: addCaptionsToVideo_def unlinkSync_def writeFileSync_def Let_def
          srt_path_neq_captioned[THEN not_sym] split: prod.splits sum.splits option.splits)
  with un have "files w4 ?cap = Some b"
    by (auto simp: unlinkSync_def split: option.splits)
  with p show ?thesis by simp
qed

lemma zoom_step_copy:
  assumes on: "cfg_addZoomPan cfg"
    and video: "files w p = Some video"
    and p: "p = path_join (CLIPS_DIR env) (clipId @ ''_base.mp4'')
            \<or> p = path_join (CLIPS_DIR env) (clipId @ ''_captioned.mp4'')"
    and zoom: "ffmpeg_zoompan env (files w) p (path_join (CLIPS_DIR env) (clipId @ ''_final.mp4''))
                 0.05 = Inl e"
  shows "addZoomPanEffect env p (path_join (CLIPS_DIR env) (clipId @ ''_final.mp4'')) w
           = Returned () (w\<lparr>files := (files w)(path_join (CLIPS_DIR env) (clipId @ ''_final.mp4'')
                                        \<mapsto> video)\<rparr>)
         \<and> (\<exists>w1. zoom_step env cfg clipId (path_join (CLIPS_DIR env) (clipId @ ''_base.mp4'')) p w
                   = Returned (path_join (CLIPS_DIR env) (clipId @ ''_final.mp4'')) w1
                 \<and> files w1 (path_join (CLIPS_DIR env) (clipId @ ''_final.mp4'')) = Some video)"
proof -
  let ?zoom = "path_join (CLIPS_DIR env) (clipId @ ''_final.mp4'')"
  have eff: "addZoomPanEffect env p ?zoom w = Returned () (w\<lparr>files := (files w)(?zoom \<mapsto> video)\<rparr>)"
    using zoom video by (simp add: addZoomPanEffect_def copyFileSync_def)
  from p have ne: "p \<noteq> ?zoom" by auto
  show ?thesis
    using on eff video ne p
    by (auto simp: zoom_step_def unlinkSync_def Let_def)
qed

lemma finish_step_ok:
  assumes video: "files w (path_join (CLIPS_DIR env) (clipId @ ''_final.mp4'')) = Some video"
    and thumb: "\<forall>fs src dst t. \<not> isl (ffmpeg_thumbnail env fs src dst t)"
  shows "\<exists>clip w2. finish_step env clipId (path_join (CLIPS_DIR env) (clipId @ ''_final.mp4''))
                      moment w = Returned clip w2
           \<and> pc_ready clip
           \<and> pc_videoPath clip = Some (path_join (CLIPS_DIR env) (clipId @ ''.mp4''))
           \<and> files w2 (path_join (CLIPS_DIR env) (clipId @ ''.mp4'')) = Some video"
proof -
  let ?zoom = "path_join (CLIPS_DIR env) (clipId @ ''_final.mp4'')"
  let ?final = "path_join (CLIPS_DIR env) (clipId @ ''.mp4'')"
  let ?thumb = "path_join (CLIPS_DIR env) (clipId @ ''_thumb.jpg'')"
  let ?w1 = "w\<lparr>files := ((files w)(?zoom := None))(?final \<mapsto> video)\<rparr>"
  have ne: "?zoom \<noteq> ?final" "?final \<noteq> ?thumb"
    using path_join_suffix_eq[of "CLIPS_DIR env" clipId "''_final.mp4''" "''.mp4''"]
      path_join_suffix_eq[of "CLIPS_DIR env" clipId "''.mp4''" "''_thumb.jpg''"]
    by simp_all
  have ren: "renameSync ?zoom ?final w = Returned () ?w1"
    using video by (simp add: renameSync_def)
  from thumb obtain t where t: "ffmpeg_thumbnail env (files ?w1) ?final ?thumb 1 = Inr t"
    by (cases "ffmpeg_thumbnail env (files ?w1) ?final ?thumb 1") (auto simp: isl_def)
  show ?thesis
    using ne ren t
    by (simp add: finish_step_def generateThumbnail_def writeFileSync_def Let_def)
qed




subsection \<open>Intermediate files\<close>

text \<open>
  With the captions off and the zoom on, no step of a clip that completes removes the base
  clip, whatever the media tool writes.
\<close>

lemma base_clip_kept_without_captions:
  assumes cfg: "read_config config = Inr cfg"
    and off: "\<not> cfg_addCaptions cfg"
    and on: "cfg_addZoomPan cfg"
    and run: "clip_body env clipJobId videoPath segments n config i moment w = Returned clip w'"
  shows "files w' (path_join (CLIPS_DIR env) (uuidv4 env (uuidCount w) @ ''_base.mp4'')) \<noteq> None"
proof -
  let ?w2 = "(report_progress clipJobId i n w)\<lparr>uuidCount := uuidCount w + 1\<rparr>"
  let ?id = "uuidv4 env (uuidCount w)"
  let ?base = "path_join (CLIPS_DIR env) (?id @ ''_base.mp4'')"
  let ?zoom = "path_join (CLIPS_DIR env) (?id @ ''_final.mp4'')"
  have ne: "?base \<noteq> ?zoom" "?base \<noteq> path_join (CLIPS_DIR env) (?id @ ''.mp4'')"
    "?base \<noteq> path_join (CLIPS_DIR env) (?id @ ''_thumb.jpg'')"
    by simp_all
  from run cfg obtain w3
    where crop: "createClip env videoPath ?base (m_start moment) (m_end moment) (cfg_format cfg) ?w2
                   = Returned () w3"
    by (cases "createClip env videoPath ?base (m_start moment) (m_end moment) (cfg_format cfg) ?w2")
       (simp_all add: clip_body_def Let_def)
  then obtain b0 where base: "files w3 ?base = Some b0"
    by (auto simp: createClip_def writeFileSync_def Let_def split: sum.splits)
  have cap: "caption_step env cfg ?id ?base segments moment w3 = Returned ?base w3"
    using off by (simp add: caption_step_def)
  from run cfg crop cap obtain fp w5
    where zoom: "zoom_step env cfg ?id ?base ?base w3 = Returned fp w5"
      and fin: "finish_step env ?id fp moment w5 = Returned clip w'"
    by (cases "zoom_step env cfg ?id ?base ?base w3") (simp_all add: clip_body_def Let_def)
  from zoom on have fp: "fp = ?zoom"
    and eff: "addZoomPanEffect env ?base ?zoom w3 = Returned () w5"
    by (auto simp: zoom_step_def Let_def split: outcome.splits)
  from eff base ne(1) have kept: "files w5 ?base = Some b0"
    by (auto simp: addZoomPanEffect_def copyFileSync_def writeFileSync_def
          split: sum.splits option.splits)
  from fin kept ne show ?thesis
    unfolding fp
    by (auto simp: finish_step_def renameSync_def generateThumbnail_def writeFileSync_def Let_def
          split: outcome.splits sum.splits option.splits if_splits)
qed

text \<open>
  C9 does not hold for the code. With the captions switched off and the zoom on, the
  zoom stage reads the base clip, and its guard \<open>processedPath !== baseClipPath\<close> skips
  the removal of the file it has consumed: when the clip is ready, the base clip is still
  on disk beside the final video and the thumbnail. With the captions on, the caption
  step removes the base clip and the zoom step removes the captioned clip.
\<close>

theorem base_clip_left_on_disk:
  "files (snd (startClipJob env_ok ''/app/uploads/v.mp4'' segs3 [moment_of ''m0'' 0 10]
                 config_no_captions world0)) ''/app/clips/id1_base.mp4'' = Some ''base-video''
   \<and> files (snd (startClipJob env_ok ''/app/uploads/v.mp4'' segs3 [moment_of ''m0'' 0 10]
                 config_no_captions world0)) ''/app/clips/id1.mp4'' = Some ''zoomed-video''
   \<and> map_option (map pc_ready)
        (cj_result (the (clipJobs (snd (startClipJob env_ok ''/app/uploads/v.mp4'' segs3
           [moment_of ''m0'' 0 10] config_no_captions world0)) ''id0''))) = Some [True]
   \<and> files (snd (startClipJob env_ok ''/app/uploads/v.mp4'' segs3 [moment_of ''m0'' 0 10]
                 config_all_on world0)) ''/app/clips/id1_base.mp4'' = None
   \<and> files (snd (startClipJob env_ok ''/app/uploads/v.mp4'' segs3 [moment_of ''m0'' 0 10]
                 config_all_on world0)) ''/app/clips/id1_captioned.mp4'' = None"
  by code_simp

subsection \<open>Configuration defaults\<close>

lemma clip_body_config:
  assumes "read_config c1 = read_config c2"
  shows "clip_body env clipJobId videoPath segments n c1 i moment w
           = clip_body env clipJobId videoPath segments n c2 i moment w"
  using assms by (simp add: clip_body_def)

lemma clip_loop_config:
  assumes "read_config c1 = read_config c2"
  shows "clip_loop env clipJobId videoPath segments n c1 i ms clips w
           = clip_loop env clipJobId videoPath segments n c2 i ms clips w"
  by (induction ms arbitrary: i clips w)
     (simp_all add: clip_body_config[OF assms] split: outcome.splits)

text \<open>
  C10. Read from a request object, each of \<open>addCaptions\<close>, \<open>addEmojis\<close> and
  \<open>addZoomPan\<close> is on unless the object holds the literal \<open>false\<close> under its name, and
  the format is \<open>'9:16'\<close> when the object holds no format (or a falsy one). A request
  without a configuration is run with the empty object, so with all three on and the
  vertical format: it is processed exactly as with the configuration that switches
  every stage on.
\<close>

theorem config_flags_default_enabled:
  "read_config (JObj kvs)
     = Inr \<lparr> cfg_format = (case map_of kvs ''format'' of
                               None \<Rightarrow> JStr ''9:16''
                             | Some f \<Rightarrow> if truthy f then f else JStr ''9:16''),
             cfg_addCaptions = (map_of kvs ''addCaptions'' \<noteq> Some (JBool False)),
             cfg_addEmojis = (map_of kvs ''addEmojis'' \<noteq> Some (JBool False)),
             cfg_addZoomPan = (map_of kvs ''addZoomPan'' \<noteq> Some (JBool False)) \<rparr>
   \<and> read_config (config_or_empty JUndefined)
     = Inr \<lparr> cfg_format = JStr ''9:16'', cfg_addCaptions = True, cfg_addEmojis = True,
             cfg_addZoomPan = True \<rparr>
   \<and> startClipJob env videoPath segments moments JUndefined w
     = startClipJob env videoPath segments moments config_all_on w"
proof -
  have obj: "read_config (JObj kvs)
     = Inr \<lparr> cfg_format = (case map_of kvs ''format'' of
                               None \<Rightarrow> JStr ''9:16''
                             | Some f \<Rightarrow> if truthy f then f else JStr ''9:16''),
             cfg_addCaptions = (map_of kvs ''addCaptions'' \<noteq> Some (JBool False)),
             cfg_addEmojis = (map_of kvs ''addEmojis'' \<noteq> Some (JBool False)),
             cfg_addZoomPan = (map_of kvs ''addZoomPan'' \<noteq> Some (JBool False)) \<rparr>"
    by (auto simp: read_config_def split: option.splits)
  have none: "read_config (config_or_empty JUndefined)
     = Inr \<lparr> cfg_format = JStr ''9:16'', cfg_addCaptions = True, cfg_addEmojis = True,
             cfg_addZoomPan = True \<rparr>"
    by (simp add: read_config_def config_or_empty_def)
  have same: "read_config (config_or_empty config_all_on) = read_config (config_or_empty JUndefined)"
    unfolding none by (simp add: read_config_def config_or_empty_def config_all_on_def)
  have "startClipJob env videoPath segments moments JUndefined w
     = startClipJob env videoPath segments moments config_all_on w"
    by (simp add: startClipJob_def processClips_def Let_def clip_loop_config[OF same])
  with obj none show ?thesis by blast
qed

theorem config_flags_default_enabled_witness:
  "read_config (JObj [(''addCaptions'', JBool False)])
     = Inr \<lparr> cfg_format = JStr ''9:16'', cfg_addCaptions = False, cfg_addEmojis = True,
             cfg_addZoomPan = True \<rparr>
   \<and> read_config (JObj [(''addCaptions'', JNum 0), (''format'', JStr ''1:1'')])
     = Inr \<lparr> cfg_format = JStr ''1:1'', cfg_addCaptions = True, cfg_addEmojis = True,
             cfg_addZoomPan = True \<rparr>
   \<and> startClipJob env_trace ''/app/uploads/v.mp4'' segs_why [moment_of ''m0'' 0 10] JUndefined world0
     = startClipJob env_trace ''/app/uploads/v.mp4'' segs_why [moment_of ''m0'' 0 10]
         config_all_on world0
   \<and> files (snd (startClipJob env_trace ''/app/uploads/v.mp4'' segs_why [moment_of ''m0'' 0 10]
                   config_all_on world0)) ''/app/clips/id1.mp4''
     = Some (''zoompan[subtitles[crop[''
             @ ''scale=1920:1080:force_original_aspect_ratio=increase,crop=1080:1920,scale=1080:1920''
             @ '']]['' @ ''1'' @ [CHR 0x0A] @ ''00:00:00,000 --> 00:00:10,000'' @ [CHR 0x0A]
             @ [CHR 0xE2, CHR 0x9D, CHR 0x93] @ '' why?'' @ [CHR 0x0A, CHR 0x0A] @ '']]'')"
proof -
  have a: "read_config (JObj [(''addCaptions'', JBool False)])
     = Inr \<lparr> cfg_format = JStr ''9:16'', cfg_addCaptions = False, cfg_addEmojis = True,
             cfg_addZoomPan = True \<rparr>"
    using config_flags_default_enabled[of "[(''addCaptions'', JBool False)]"] by simp
  have b: "read_config (JObj [(''addCaptions'', JNum 0), (''format'', JStr ''1:1'')])
     = Inr \<lparr> cfg_format = JStr ''1:1'', cfg_addCaptions = True, cfg_addEmojis = True,
             cfg_addZoomPan = True \<rparr>"
    using config_flags_default_enabled[of "[(''addCaptions'', JNum 0), (''format'', JStr ''1:1'')]"]
    by simp
  have c: "startClipJob env_trace ''/app/uploads/v.mp4'' segs_why [moment_of ''m0'' 0 10]
             JUndefined world0
     = startClipJob env_trace ''/app/uploads/v.mp4'' segs_why [moment_of ''m0'' 0 10]
         config_all_on world0"
    using config_flags_default_enabled[of "[]" env_trace "''/app/uploads/v.mp4''" segs_why
            "[moment_of ''m0'' 0 10]" world0]
    by blast
  have d: "files (snd (startClipJob env_trace ''/app/uploads/v.mp4'' segs_why
                   [moment_of ''m0'' 0 10] config_all_on world0)) ''/app/clips/id1.mp4''
     = Some (''zoompan[subtitles[crop[''
             @ ''scale=1920:1080:force_original_aspect_ratio=increase,crop=1080:1920,scale=1080:1920''
             @ '']]['' @ ''1'' @ [CHR 0x0A] @ ''00:00:00,000 --> 00:00:10,000'' @ [CHR 0x0A]
             @ [CHR 0xE2, CHR 0x9D, CHR 0x93] @ '' why?'' @ [CHR 0x0A, CHR 0x0A] @ '']]'')"
    by code_simp
  from a b c d show ?thesis by blast
qed
end
